theory Spec2Isabelle
  imports Complex_Main "HOL-Library.Word"
begin

section \<open>The Auto flight mode of ArduCopter (ArduCopter/mode\_auto.cpp)\<close>

text \<open>
  A shallow embedding of \<^verbatim>\<open>ModeAuto\<close> and \<^verbatim>\<open>PayloadPlace\<close>. Member variables are
  fields of records that every function takes and returns; a value read from a
  collaborator (mission library, waypoint, circle and position controllers, motors,
  clock) is a field of the record \<open>env\<close>, one reading per call; a call into a
  collaborator that returns nothing the caller uses is appended to the log \<open>out\<close>.
  \<^verbatim>\<open>float\<close> values are real numbers (the sums and differences of
  \<^verbatim>\<open>takeoff_start\<close> are rounded to binary32), \<^verbatim>\<open>uint32_t\<close> millisecond clocks are
  \<open>32 word\<close> (their differences wrap), the other integers are \<open>int\<close> (signed
  overflow is undefined in C++ and no modelled path relies on it). \<^verbatim>\<open>is_zero\<close> and
  \<^verbatim>\<open>is_positive\<close>, which compare with the machine epsilon, compare with 0 here. The
  build modelled is the one with every optional feature compiled in.
\<close>

subsection \<open>Locations and mission commands\<close>

text \<open>
  Modelled from the spec: the \<^verbatim>\<open>Location\<close> class (libraries/AP\_Common) is not part of
  the sources at hand. A location is latitude, longitude, altitude and an
  altitude-reference frame; \<^verbatim>\<open>set_alt_cm\<close> stores an altitude with its frame and
  \<^verbatim>\<open>copy_alt_from\<close> takes both from another location.
\<close>

datatype AltFrame = ABOVE_HOME | ABOVE_ORIGIN | ABOVE_TERRAIN

record Location =
  lat :: int
  lng :: int
  alt :: int
  alt_frame :: AltFrame
  loiter_ccw :: bool

definition get_alt_frame :: "Location \<Rightarrow> AltFrame" where
  "get_alt_frame loc = alt_frame loc"

definition set_alt_cm :: "int \<Rightarrow> AltFrame \<Rightarrow> Location \<Rightarrow> Location" where
  "set_alt_cm alt_cm frame loc = loc\<lparr>alt := alt_cm, alt_frame := frame\<rparr>"

definition copy_alt_from :: "Location \<Rightarrow> Location \<Rightarrow> Location" where
  "copy_alt_from other loc = loc\<lparr>alt := alt other, alt_frame := alt_frame other\<rparr>"

text \<open>
  \<^verbatim>\<open>Location::get_alt_cm(frame, alt)\<close> converts between frames with the home, origin
  and terrain data and can fail; \<open>loc_from_cmd\<close> takes it as the parameter
  \<open>conv\<close>, \<open>None\<close> being the failure. \<open>same_frame_get_alt_cm\<close> is the
  conversion of a vehicle that has no such data: it succeeds only when no conversion is
  needed.
\<close>

type_synonym alt_conversion = "Location \<Rightarrow> AltFrame \<Rightarrow> int option"

definition same_frame_get_alt_cm :: alt_conversion where
  "same_frame_get_alt_cm loc frame = (if alt_frame loc = frame then Some (alt loc) else None)"

datatype MAV_CMD =
    MAV_CMD_NAV_WAYPOINT
  | MAV_CMD_NAV_LOITER_UNLIM
  | MAV_CMD_NAV_LOITER_TURNS
  | MAV_CMD_NAV_LOITER_TIME
  | MAV_CMD_NAV_RETURN_TO_LAUNCH
  | MAV_CMD_NAV_LAND
  | MAV_CMD_NAV_TAKEOFF
  | MAV_CMD_NAV_LOITER_TO_ALT
  | MAV_CMD_NAV_SPLINE_WAYPOINT
  | MAV_CMD_NAV_VTOL_TAKEOFF
  | MAV_CMD_NAV_VTOL_LAND
  | MAV_CMD_NAV_GUIDED_ENABLE
  | MAV_CMD_NAV_DELAY
  | MAV_CMD_NAV_PAYLOAD_PLACE
  | MAV_CMD_NAV_SCRIPT_TIME
  | MAV_CMD_NAV_ATTITUDE_TIME
  | MAV_CMD_CONDITION_DELAY
  | MAV_CMD_CONDITION_DISTANCE
  | MAV_CMD_CONDITION_YAW
  | MAV_CMD_DO_CHANGE_SPEED
  | MAV_CMD_DO_SET_HOME
  | MAV_CMD_DO_SET_ROI_LOCATION
  | MAV_CMD_DO_SET_ROI_NONE
  | MAV_CMD_DO_SET_ROI
  | MAV_CMD_DO_MOUNT_CONTROL
  | MAV_CMD_DO_GUIDED_LIMITS
  | MAV_CMD_DO_FENCE_ENABLE
  | MAV_CMD_DO_WINCH
  | MAV_CMD_DO_RETURN_PATH_START
  | MAV_CMD_DO_LAND_START
  | MAV_CMD_OTHER nat

text \<open>
  \<^verbatim>\<open>AP_Mission::Mission_Command\<close>: the fields the modelled functions read. \<open>turns\<close>
  is what \<^verbatim>\<open>cmd.get_loiter_turns()\<close> returns and \<open>time_sec\<close> is
  \<^verbatim>\<open>cmd.content.nav_attitude_time.time_sec\<close>.
\<close>

record Mission_Command =
  cmd_id :: MAV_CMD
  index :: nat
  p1 :: nat
  type_specific_bits :: nat
  location :: Location
  turns :: real
  time_sec :: nat

text \<open>A waypoint command without coordinates, at 500 cm above home.\<close>

definition sample_cmd :: Mission_Command where
  "sample_cmd =
     \<lparr>cmd_id = MAV_CMD_NAV_WAYPOINT, index = 1, p1 = 0, type_specific_bits = 0,
      location = \<lparr>lat = 0, lng = 0, alt = 500, alt_frame = ABOVE_HOME, loiter_ccw = False\<rparr>,
      turns = 0, time_sec = 0\<rparr>"

definition sample_default_loc :: Location where
  "sample_default_loc = \<lparr>lat = 10, lng = 20, alt = 300, alt_frame = ABOVE_HOME, loiter_ccw = False\<rparr>"

subsection \<open>loc\_from\_cmd\<close>

definition loc_from_cmd :: "alt_conversion \<Rightarrow> Mission_Command \<Rightarrow> Location \<Rightarrow> Location" where
  "loc_from_cmd conv cmd default_loc =
     (let ret = location cmd;
          ret = (if lat ret = 0 \<and> lng ret = 0
                 then ret\<lparr>lat := lat default_loc, lng := lng default_loc\<rparr>
                 else ret)
      in if alt ret = 0
         then (case conv default_loc (get_alt_frame ret) of
                 Some default_alt \<Rightarrow> set_alt_cm default_alt (get_alt_frame ret) ret
               | None \<Rightarrow> copy_alt_from default_loc ret)
         else ret)"

subsection \<open>State of the mode\<close>

datatype SubMode =
    TAKEOFF | WP | LAND | RTL | CIRCLE_MOVE_TO_EDGE | CIRCLE | NAVGUIDED | LOITER
  | LOITER_TO_ALT | NAV_PAYLOAD_PLACE | NAV_SCRIPT_TIME | NAV_ATTITUDE_TIME

text \<open>
  Modelled from the spec: \<^verbatim>\<open>Mode::AutoYaw\<close> is declared outside the sources at hand.
  Its state is the yaw mode; \<^verbatim>\<open>set_mode\<close> stores a mode and
  \<^verbatim>\<open>set_mode_to_default\<close> stores the default one.
\<close>

datatype AutoYaw_Mode = AutoYaw_HOLD | AutoYaw_FIXED | AutoYaw_ROI | AutoYaw_CIRCLE | AutoYaw_DEFAULT

datatype State = State_FlyToLocation | State_Descending

datatype PayloadPlace_State =
    FlyToLocation | Descent_Start | Descent | Release | Releasing | Delay
  | Ascent_Start | Ascent | Done

type_synonym Vector3f = "real \<times> real \<times> real"

datatype DesiredSpoolState = THROTTLE_UNLIMITED

datatype MAV_SEVERITY = MAV_SEVERITY_CRITICAL | MAV_SEVERITY_WARNING | MAV_SEVERITY_INFO

datatype fmt_arg = Arg_int int | Arg_unsigned nat | Arg_float real | Arg_str string

datatype Disarm_Method = Method_LANDED | Method_MISSIONEXIT

text \<open>
  The calls into collaborators, in the order they are made. Limits that are read from
  the waypoint controller only to be handed to the position controller are left out of
  the call's arguments.
\<close>

datatype pos_control_call =
    Update_U_controller
  | Set_max_speed_accel_NE_cm
  | Set_correction_speed_accel_NE_cm
  | Init_NE_controller
  | Set_max_speed_accel_U_cm
  | Set_correction_speed_accel_U_cmss
  | Init_U_controller
  | Init_U_controller_no_descent
  | Set_pos_target_U_from_climb_rate_cm real
  | Soften_for_landing_NE
  | Land_at_climb_rate_cm real bool
  | Input_pos_vel_accel_U_cm real real real

datatype attitude_control_call =
    Input_thrust_vector_heading Vector3f
  | Input_euler_angle_roll_pitch_yaw_rad real real real bool

datatype nav_call =
    Update_wpnav
  | Update_cms
  | Wp_and_spline_init_cm "(real \<times> Vector3f) option"
  | Set_speed_up_cms real
  | Set_speed_down_cms real
  | Set_wp_destination_loc Location
  | Set_center Location
  | Set_radius_cm real
  | Set_rate_degs real
  | Circle_nav_init_NEU_cm

datatype mode_call =
    Make_safe_ground_handling
  | Land_run_normal_or_precland
  | Land_run_horizontal_control
  | Mode_rtl_run bool
  | Mode_guided_run
  | Auto_takeoff_run
  | Auto_takeoff_start int bool
  | Limit_clear

datatype copter_call =
    Set_desired_spool_state DesiredSpoolState
  | Failsafe_terrain_set_status bool
  | Failsafe_terrain_on_event
  | Failsafe_ekf_recheck
  | Set_auto_armed bool
  | Update_surface_offset
  | Disarm Disarm_Method
  | Gripper_release
  | Deploy_for_landing
  | Retract_after_takeoff
  | Precland_statemachine_init
  | Check_for_mission_change

datatype gcs_call =
    Send_text MAV_SEVERITY string "fmt_arg list"
  | Send_mission_item_reached_message nat
  | Internal_error_flow_of_control
  | Log_error_missing_terrain_data
  | Notify_waypoint_complete

datatype call =
    Pos_control pos_control_call
  | Attitude_control attitude_control_call
  | Nav nav_call
  | Mode mode_call
  | Copter copter_call
  | Gcs gcs_call

record LoiterToAlt =
  reached_destination_xy :: bool
  loiter_start_done :: bool
  reached_alt :: bool
  alt_error_cm :: real
  lta_alt :: int  \<comment> \<open>\<^verbatim>\<open>loiter_to_alt.alt\<close>\<close>

record NavAttitudeTime =
  roll_deg :: real
  pitch_deg :: real
  yaw_deg :: real
  climb_rate :: real
  start_ms :: "32 word"

record NavScripting =
  script_done :: bool  \<comment> \<open>\<^verbatim>\<open>nav_scripting.done\<close>\<close>
  timeout_s :: nat
  scr_start_ms :: "32 word"  \<comment> \<open>\<^verbatim>\<open>nav_scripting.start_ms\<close>\<close>

record DesiredSpeedOverride =
  xy :: real
  up :: real
  down :: real

record PayloadPlace =
  state :: PayloadPlace_State
  descent_established_time_ms :: "32 word"
  place_start_time_ms :: "32 word"
  descent_thrust_level :: real
  descent_start_altitude_cm :: real
  descent_speed_cms :: real
  descent_max_cm :: real

text \<open>
  \<open>auto_mode\<close> is the member \<^verbatim>\<open>_mode\<close>, \<open>land_state\<close> is \<^verbatim>\<open>ModeAuto::state\<close>;
  \<open>land_repo_active\<close> and \<open>prec_land_active\<close> are the two flags of
  \<^verbatim>\<open>copter.ap\<close> that the mode writes.
\<close>

record ModeAuto =
  auto_mode :: SubMode
  auto_RTL :: bool
  waiting_to_start :: bool
  desired_speed_override :: DesiredSpeedOverride
  auto_yaw_mode :: AutoYaw_Mode
  loiter_time :: "32 word"
  loiter_time_max :: nat
  condition_value :: int
  condition_start :: "32 word"
  nav_delay_time_max_ms :: "32 word"
  nav_delay_time_start_ms :: "32 word"
  nav_scripting :: NavScripting
  nav_attitude_time :: NavAttitudeTime
  loiter_to_alt :: LoiterToAlt
  land_state :: State
  circle_last_num_complete :: real
  payload_place :: PayloadPlace
  land_repo_active :: bool
  prec_land_active :: bool
  out :: "call list"

definition emit :: "call list \<Rightarrow> ModeAuto \<Rightarrow> ModeAuto" where
  "emit cs s = s\<lparr>out := out s @ cs\<rparr>"

definition auto_yaw_set_mode :: "AutoYaw_Mode \<Rightarrow> ModeAuto \<Rightarrow> ModeAuto" where
  "auto_yaw_set_mode m s = s\<lparr>auto_yaw_mode := m\<rparr>"

definition auto_yaw_set_mode_to_default :: "ModeAuto \<Rightarrow> ModeAuto" where
  "auto_yaw_set_mode_to_default s = s\<lparr>auto_yaw_mode := AutoYaw_DEFAULT\<rparr>"

definition set_submode :: "SubMode \<Rightarrow> ModeAuto \<Rightarrow> ModeAuto" where
  "set_submode new_submode s =
     (if new_submode = auto_mode s then s
      else let old_submode = auto_mode s;
               s = s\<lparr>auto_mode := new_submode\<rparr>
           in if old_submode = NAV_ATTITUDE_TIME then emit [Copter Failsafe_ekf_recheck] s else s)"

subsection \<open>The periodic tick\<close>

text \<open>
  What a tick reads. \<open>is_disarmed_or_landed\<close> is \<^verbatim>\<open>Mode::is_disarmed_or_landed()\<close>;
  \<open>update_wpnav\<close> and \<open>update_cms\<close> are the results of the two controller updates;
  \<open>sqrt_controller\<close>, \<open>limit_length\<close> and
  \<open>get_avoidance_adjusted_climbrate_cms\<close> are the helpers of those names, defined
  outside the sources at hand; \<open>AllowTakeOffWithoutRaisingThrottle\<close> is the bit of
  that option in \<^verbatim>\<open>AUTO_OPTIONS\<close>.
\<close>

record tick_env =
  is_disarmed_or_landed :: bool
  get_interlock :: bool
  auto_options :: "32 word"
  AllowTakeOffWithoutRaisingThrottle :: "32 word"
  update_wpnav :: bool
  update_cms :: bool
  get_thrust_vector :: Vector3f
  reached_wp_destination_NE :: bool
  is_active_NE :: bool
  is_active_U :: bool
  current_loc :: Location
  sqrt_controller :: "real \<Rightarrow> real \<Rightarrow> real \<Rightarrow> real \<Rightarrow> real"
  kP :: real
  get_max_accel_U_cmss :: real
  G_Dt :: real
  get_max_speed_down_cms :: real
  get_max_speed_up_cms :: real
  get_avoidance_adjusted_climbrate_cms :: "real \<Rightarrow> real"
  lean_angle_max_rad :: real
  get_althold_lean_angle_max_rad :: real
  limit_length :: "real \<times> real \<Rightarrow> real \<Rightarrow> real \<times> real"

definition constrain_float :: "real \<Rightarrow> real \<Rightarrow> real \<Rightarrow> real" where
  "constrain_float amt low high = (if amt < low then low else if amt > high then high else amt)"

definition radians :: "real \<Rightarrow> real" where
  "radians deg = deg * (pi / 180)"

definition option_is_enabled :: "'a tick_env_scheme \<Rightarrow> 32 word \<Rightarrow> bool" where
  "option_is_enabled env option = (and (auto_options env) option \<noteq> 0)"

definition takeoff_run :: "'a tick_env_scheme \<Rightarrow> ModeAuto \<Rightarrow> ModeAuto" where
  "takeoff_run env s =
     (let s = (if option_is_enabled env (AllowTakeOffWithoutRaisingThrottle env)
               then emit [Copter (Set_auto_armed True)] s else s)
      in emit [Mode Auto_takeoff_run] s)"

definition wp_run :: "'a tick_env_scheme \<Rightarrow> ModeAuto \<Rightarrow> ModeAuto" where
  "wp_run env s =
     (if is_disarmed_or_landed env then emit [Mode Make_safe_ground_handling] s
      else emit [Copter (Set_desired_spool_state THROTTLE_UNLIMITED),
                 Nav Update_wpnav, Copter (Failsafe_terrain_set_status (update_wpnav env)),
                 Pos_control Update_U_controller,
                 Attitude_control (Input_thrust_vector_heading (get_thrust_vector env))] s)"

definition land_run :: "'a tick_env_scheme \<Rightarrow> ModeAuto \<Rightarrow> ModeAuto" where
  "land_run env s =
     (if is_disarmed_or_landed env then emit [Mode Make_safe_ground_handling] s
      else emit [Copter (Set_desired_spool_state THROTTLE_UNLIMITED), Mode Land_run_normal_or_precland] s)"

definition rtl_run :: "'a tick_env_scheme \<Rightarrow> ModeAuto \<Rightarrow> ModeAuto" where
  "rtl_run env s = emit [Mode (Mode_rtl_run False)] s"

definition circle_run :: "'a tick_env_scheme \<Rightarrow> ModeAuto \<Rightarrow> ModeAuto" where
  "circle_run env s =
     emit [Nav Update_cms, Copter (Failsafe_terrain_set_status (update_cms env)),
           Pos_control Update_U_controller,
           Attitude_control (Input_thrust_vector_heading (get_thrust_vector env))] s"

definition nav_guided_run :: "'a tick_env_scheme \<Rightarrow> ModeAuto \<Rightarrow> ModeAuto" where
  "nav_guided_run env s = emit [Mode Mode_guided_run] s"

definition loiter_run :: "'a tick_env_scheme \<Rightarrow> ModeAuto \<Rightarrow> ModeAuto" where
  "loiter_run env s =
     (if is_disarmed_or_landed env then emit [Mode Make_safe_ground_handling] s
      else emit [Copter (Set_desired_spool_state THROTTLE_UNLIMITED),
                 Nav Update_wpnav, Copter (Failsafe_terrain_set_status (update_wpnav env)),
                 Pos_control Update_U_controller,
                 Attitude_control (Input_thrust_vector_heading (get_thrust_vector env))] s)"

text \<open>
  \<^verbatim>\<open>loiter_to_alt_run\<close>. \<open>alt_error_cm\<close> is the difference of two integer
  altitudes converted to \<^verbatim>\<open>float\<close>: the conversion keeps the sign and whether the
  magnitude is below 5, and the product of two such values keeps its sign, so the real
  number decides the two tests as the \<^verbatim>\<open>float\<close> does.
\<close>

definition loiter_to_alt_run :: "'a tick_env_scheme \<Rightarrow> ModeAuto \<Rightarrow> ModeAuto" where
  "loiter_to_alt_run env s =
     (if is_disarmed_or_landed env \<or> \<not> get_interlock env
      then emit [Mode Make_safe_ground_handling] s
      else
        let s = (if \<not> reached_destination_xy (loiter_to_alt s)
                 then s\<lparr>loiter_to_alt := (loiter_to_alt s)
                          \<lparr>reached_destination_xy := reached_wp_destination_NE env\<rparr>\<rparr>
                 else s)
        in if \<not> reached_destination_xy (loiter_to_alt s) then wp_run env s
           else
             let s = (if \<not> loiter_start_done (loiter_to_alt s)
                      then (emit ([Pos_control Set_max_speed_accel_NE_cm, Pos_control Set_correction_speed_accel_NE_cm]
                                  @ (if \<not> is_active_NE env then [Pos_control Init_NE_controller] else [])) s)
                             \<lparr>loiter_to_alt := (loiter_to_alt s)\<lparr>loiter_start_done := True\<rparr>\<rparr>
                      else s);
                 alt_error_cm' = real_of_int (alt (current_loc env) - lta_alt (loiter_to_alt s));
                 s = (if \<bar>alt_error_cm'\<bar> < 5
                      then s\<lparr>loiter_to_alt := (loiter_to_alt s)\<lparr>reached_alt := True\<rparr>\<rparr>
                      else if alt_error_cm' * alt_error_cm (loiter_to_alt s) < 0
                      then s\<lparr>loiter_to_alt := (loiter_to_alt s)\<lparr>reached_alt := True\<rparr>\<rparr>
                      else s);
                 s = s\<lparr>loiter_to_alt := (loiter_to_alt s)\<lparr>alt_error_cm := alt_error_cm'\<rparr>\<rparr>;
                 s = emit [Mode Land_run_horizontal_control] s;
                 target_climb_rate_cms =
                   sqrt_controller env (- alt_error_cm') (kP env) (get_max_accel_U_cmss env) (G_Dt env);
                 target_climb_rate_cms =
                   constrain_float target_climb_rate_cms
                     (get_max_speed_down_cms env) (get_max_speed_up_cms env);
                 target_climb_rate_cms =
                   get_avoidance_adjusted_climbrate_cms env target_climb_rate_cms
             in emit [Copter Update_surface_offset,
                      Pos_control (Set_pos_target_U_from_climb_rate_cm target_climb_rate_cms),
                      Pos_control Update_U_controller] s)"

definition nav_attitude_time_run :: "'a tick_env_scheme \<Rightarrow> ModeAuto \<Rightarrow> ModeAuto" where
  "nav_attitude_time_run env s =
     (if is_disarmed_or_landed env \<or> \<not> get_interlock env
      then emit [Mode Make_safe_ground_handling] s
      else
        let target_climb_rate_cms =
              constrain_float (climb_rate (nav_attitude_time s) * 100)
                (get_max_speed_down_cms env) (get_max_speed_up_cms env);
            target_climb_rate_cms =
              get_avoidance_adjusted_climbrate_cms env target_climb_rate_cms;
            angle_limit_rad =
              max (radians 10) (min (lean_angle_max_rad env) (get_althold_lean_angle_max_rad env));
            target_rp_rad =
              limit_length env (radians (roll_deg (nav_attitude_time s)),
                                radians (pitch_deg (nav_attitude_time s))) angle_limit_rad
        in emit [Attitude_control (Input_euler_angle_roll_pitch_yaw_rad (fst target_rp_rad) (snd target_rp_rad)
                   (radians (yaw_deg (nav_attitude_time s))) True),
                 Pos_control (Set_pos_target_U_from_climb_rate_cm target_climb_rate_cms),
                 Pos_control Update_U_controller] s)"

subsection \<open>PayloadPlace::run\<close>

text \<open>
  What a payload-place tick reads besides the above. \<open>millis\<close> is the clock
  \<^verbatim>\<open>AP_HAL::millis()\<close>, \<open>gripper_valid\<close> and \<open>gripper_released\<close> are
  \<^verbatim>\<open>AP::gripper().valid()\<close> and \<^verbatim>\<open>AP::gripper().released()\<close>, the
  \<open>pldp\<close> fields and \<open>land_speed\<close> are parameters, the \<open>rangefinder\<close> fields are
  \<^verbatim>\<open>copter.rangefinder_state\<close> and \<^verbatim>\<open>copter.rangefinder_alt_ok()\<close>.
\<close>

record place_env = tick_env +
  land_complete :: bool
  land_complete_maybe :: bool
  gripper_valid :: bool
  gripper_released :: bool
  reached_wp_destination :: bool
  millis :: "32 word"
  get_throttle_in :: real
  get_pos_desired_U_cm :: real
  get_vel_desired_NEU_cms_z :: real
  pldp_descent_speed_ms :: real
  land_speed :: int
  get_default_speed_down_cms :: real
  pldp_thrust_placed_fraction :: real
  pldp_range_finder_maximum_m :: real
  rangefinder_enabled :: bool
  rangefinder_alt_ok :: bool
  rangefinder_glitch_count :: int
  rangefinder_alt_cm :: real
  pldp_delay_s :: real

definition prefix_str :: string where
  "prefix_str = ''PayloadPlace:''"

definition descent_thrust_cal_duration_ms :: "32 word" where
  "descent_thrust_cal_duration_ms = 2000"

definition placed_check_duration_ms :: "32 word" where
  "placed_check_duration_ms = 500"

definition set_state :: "PayloadPlace_State \<Rightarrow> ModeAuto \<Rightarrow> ModeAuto" where
  "set_state st s = s\<lparr>payload_place := (payload_place s)\<lparr>state := st\<rparr>\<rparr>"

definition start_descent :: "'a tick_env_scheme \<Rightarrow> ModeAuto \<Rightarrow> ModeAuto" where
  "start_descent env s =
     (let s = emit ([Pos_control Set_max_speed_accel_NE_cm,
                     Pos_control Set_correction_speed_accel_NE_cm]
                    @ (if \<not> is_active_NE env then [Pos_control Init_NE_controller] else [])
                    @ [Pos_control Set_max_speed_accel_U_cm,
                       Pos_control Set_correction_speed_accel_U_cmss]
                    @ (if \<not> is_active_U env then [Pos_control Init_U_controller] else [])) s;
          s = auto_yaw_set_mode AutoYaw_HOLD s
      in set_state Descent_Start s)"

text \<open>The first switch: relax the position target and release at once when landed.\<close>

definition place_landed :: "'a place_env_scheme \<Rightarrow> ModeAuto \<Rightarrow> ModeAuto" where
  "place_landed env s =
     (if land_complete env \<or> land_complete_maybe env
      then let s = emit [Pos_control Soften_for_landing_NE] s
           in (case state (payload_place s) of
                 Descent \<Rightarrow>
                   set_state Release
                     (emit [Gcs (Send_text MAV_SEVERITY_INFO ''%s landed'' [Arg_str prefix_str])] s)
               | _ \<Rightarrow> s)
      else s)"

text \<open>The second switch: the pilot has released the load by hand.\<close>

definition place_gripper :: "'a place_env_scheme \<Rightarrow> ModeAuto \<Rightarrow> ModeAuto" where
  "place_gripper env s =
     (if gripper_valid env \<and> gripper_released env
      then (case state (payload_place s) of
              FlyToLocation \<Rightarrow>
                set_state Done
                  ((emit [Gcs (Send_text MAV_SEVERITY_INFO ''%s Abort: Gripper Open'' [Arg_str prefix_str])] s)
                     \<lparr>payload_place := (payload_place s)
                        \<lparr>descent_start_altitude_cm := get_pos_desired_U_cm env\<rparr>\<rparr>)
            | Descent_Start \<Rightarrow>
                set_state Done
                  ((emit [Gcs (Send_text MAV_SEVERITY_INFO ''%s Abort: Gripper Open'' [Arg_str prefix_str])] s)
                     \<lparr>payload_place := (payload_place s)
                        \<lparr>descent_start_altitude_cm := get_pos_desired_U_cm env\<rparr>\<rparr>)
            | Descent \<Rightarrow>
                set_state Release
                  (emit [Gcs (Send_text MAV_SEVERITY_INFO ''%s Manual release'' [Arg_str prefix_str])] s)
            | _ \<Rightarrow> s)
      else s)"

text \<open>
  The third switch, one function per case label; a case that falls through calls the
  function of the next label.
\<close>

definition case_Ascent :: "'a place_env_scheme \<Rightarrow> ModeAuto \<Rightarrow> ModeAuto" where
  "case_Ascent env s =
     (let vel_threshold_fraction = 0.1;
          stop_distance = 0.5 * (vel_threshold_fraction * get_max_speed_up_cms env)\<^sup>2
                            / get_max_accel_U_cmss env;
          reached_altitude =
            (get_pos_desired_U_cm env
               \<ge> descent_start_altitude_cm (payload_place s) - stop_distance)
      in if reached_altitude then set_state Done s else s)"

definition case_Ascent_Start :: "'a place_env_scheme \<Rightarrow> ModeAuto \<Rightarrow> ModeAuto" where
  "case_Ascent_Start env s = case_Ascent env (set_state Ascent s)"

definition case_Delay :: "'a place_env_scheme \<Rightarrow> ModeAuto \<Rightarrow> ModeAuto" where
  "case_Delay env s =
     (if real (unat (millis env - place_start_time_ms (payload_place s)))
           < real (unat placed_check_duration_ms) + pldp_delay_s env * 1000
      then s
      else case_Ascent_Start env s)"

definition case_Releasing :: "'a place_env_scheme \<Rightarrow> ModeAuto \<Rightarrow> ModeAuto" where
  "case_Releasing env s =
     (if gripper_valid env \<and> \<not> gripper_released env then s
      else case_Delay env (set_state Delay s))"

definition case_Release :: "'a place_env_scheme \<Rightarrow> ModeAuto \<Rightarrow> ModeAuto" where
  "case_Release env s =
     (let s = emit [Pos_control Init_U_controller_no_descent] s
      in if gripper_valid env
         then set_state Releasing
                (emit [Gcs (Send_text MAV_SEVERITY_INFO ''%s Releasing the gripper'' [Arg_str prefix_str]),
                       Copter Gripper_release] s)
         else set_state Delay s)"

definition set_place_start_time_ms :: "32 word \<Rightarrow> ModeAuto \<Rightarrow> ModeAuto" where
  "set_place_start_time_ms t s = s\<lparr>payload_place := (payload_place s)\<lparr>place_start_time_ms := t\<rparr>\<rparr>"

definition case_Descent :: "'a place_env_scheme \<Rightarrow> ModeAuto \<Rightarrow> ModeAuto" where
  "case_Descent env s =
     (let pp = payload_place s; now_ms = millis env; thrust_level = get_throttle_in env
      in if descent_max_cm pp \<noteq> 0
            \<and> descent_start_altitude_cm pp - get_pos_desired_U_cm env > descent_max_cm pp
         then emit [Gcs (Send_text MAV_SEVERITY_WARNING ''%s Reached maximum descent'' [Arg_str prefix_str])]
                (set_state Ascent_Start s)
         else if get_vel_desired_NEU_cms_z env > - 0.95 * descent_speed_cms pp
         then s\<lparr>payload_place := pp\<lparr>descent_established_time_ms := now_ms\<rparr>\<rparr>
         else if now_ms - descent_established_time_ms pp < descent_thrust_cal_duration_ms
         then s\<lparr>payload_place := pp\<lparr>descent_thrust_level := min (descent_thrust_level pp) thrust_level,
                                     place_start_time_ms := now_ms\<rparr>\<rparr>
         else if thrust_level > pldp_thrust_placed_fraction env * descent_thrust_level pp
         then set_place_start_time_ms now_ms s
         else if 0 < pldp_range_finder_maximum_m env \<and> \<not> rangefinder_enabled env
         then emit [Gcs (Send_text MAV_SEVERITY_WARNING
                      ''%s PLDP_RNG_MAX set and rangefinder not enabled'' [Arg_str prefix_str])]
                (set_state Ascent_Start s)
         else if 0 < pldp_range_finder_maximum_m env
                 \<and> rangefinder_alt_ok env \<and> rangefinder_glitch_count env = 0
                 \<and> rangefinder_alt_cm env > pldp_range_finder_maximum_m env * 100
         then set_place_start_time_ms now_ms s
         else if now_ms - place_start_time_ms pp > placed_check_duration_ms
         then emit [Gcs (Send_text MAV_SEVERITY_INFO ''%s payload release thrust threshold: %f''
                      [Arg_str prefix_str,
                       Arg_float (pldp_thrust_placed_fraction env * descent_thrust_level pp)])]
                (set_state Release s)
         else s)"

definition case_Descent_Start :: "'a place_env_scheme \<Rightarrow> ModeAuto \<Rightarrow> ModeAuto" where
  "case_Descent_Start env s =
     case_Descent env
       (s\<lparr>payload_place := (payload_place s)
            \<lparr>descent_established_time_ms := millis env,
             descent_start_altitude_cm := get_pos_desired_U_cm env,
             descent_speed_cms :=
               min (if 0 < pldp_descent_speed_ms env then pldp_descent_speed_ms env * 100
                    else real_of_int \<bar>land_speed env\<bar>)
                   (get_default_speed_down_cms env),
             descent_thrust_level := 1,
             state := Descent\<rparr>\<rparr>)"

definition case_FlyToLocation :: "'a place_env_scheme \<Rightarrow> ModeAuto \<Rightarrow> ModeAuto" where
  "case_FlyToLocation env s = (if reached_wp_destination env then start_descent env s else s)"

definition place_switch :: "'a place_env_scheme \<Rightarrow> ModeAuto \<Rightarrow> ModeAuto" where
  "place_switch env s =
     (case state (payload_place s) of
        FlyToLocation \<Rightarrow> case_FlyToLocation env s
      | Descent_Start \<Rightarrow> case_Descent_Start env s
      | Descent \<Rightarrow> case_Descent env s
      | Release \<Rightarrow> case_Release env s
      | Releasing \<Rightarrow> case_Releasing env s
      | Delay \<Rightarrow> case_Delay env s
      | Ascent_Start \<Rightarrow> case_Ascent_Start env s
      | Ascent \<Rightarrow> case_Ascent env s
      | Done \<Rightarrow> s)"

text \<open>The last switch sends the targets of the state reached to the controllers.\<close>

definition place_output :: "'a place_env_scheme \<Rightarrow> ModeAuto \<Rightarrow> ModeAuto" where
  "place_output env s =
     (let descend = [Mode Land_run_horizontal_control,
                     Pos_control (Land_at_climb_rate_cm (- descent_speed_cms (payload_place s)) True),
                     Pos_control Update_U_controller];
          hold = [Mode Land_run_horizontal_control,
                  Pos_control (Land_at_climb_rate_cm 0 False),
                  Pos_control Update_U_controller];
          climb = [Mode Land_run_horizontal_control,
                   Pos_control (Input_pos_vel_accel_U_cm
                                  (descent_start_altitude_cm (payload_place s)) 0 0),
                   Pos_control Update_U_controller]
      in case state (payload_place s) of
           FlyToLocation \<Rightarrow> wp_run env s
         | Descent_Start \<Rightarrow> emit descend s
         | Descent \<Rightarrow> emit descend s
         | Release \<Rightarrow> emit hold s
         | Releasing \<Rightarrow> emit hold s
         | Delay \<Rightarrow> emit hold s
         | Ascent_Start \<Rightarrow> emit hold s
         | Ascent \<Rightarrow> emit climb s
         | Done \<Rightarrow> emit climb s)"

definition payload_place_run :: "'a place_env_scheme \<Rightarrow> ModeAuto \<Rightarrow> ModeAuto" where
  "payload_place_run env s =
     (if is_disarmed_or_landed env then emit [Mode Make_safe_ground_handling] s
      else
        let s = emit [Copter (Set_desired_spool_state THROTTLE_UNLIMITED)] s;
            s = place_landed env s;
            s = place_gripper env s;
            s = place_switch env s
        in place_output env s)"

subsection \<open>The dispatch of ModeAuto::run\<close>

text \<open>The \<^verbatim>\<open>switch (_mode)\<close> of \<^verbatim>\<open>ModeAuto::run\<close>, which calls the tick of the submode.\<close>

definition run_dispatch :: "'a place_env_scheme \<Rightarrow> ModeAuto \<Rightarrow> ModeAuto" where
  "run_dispatch env s =
     (case auto_mode s of
        TAKEOFF \<Rightarrow> takeoff_run env s
      | WP \<Rightarrow> wp_run env s
      | CIRCLE_MOVE_TO_EDGE \<Rightarrow> wp_run env s
      | LAND \<Rightarrow> land_run env s
      | RTL \<Rightarrow> rtl_run env s
      | CIRCLE \<Rightarrow> circle_run env s
      | NAVGUIDED \<Rightarrow> nav_guided_run env s
      | NAV_SCRIPT_TIME \<Rightarrow> nav_guided_run env s
      | LOITER \<Rightarrow> loiter_run env s
      | LOITER_TO_ALT \<Rightarrow> loiter_to_alt_run env s
      | NAV_PAYLOAD_PLACE \<Rightarrow> payload_place_run env s
      | NAV_ATTITUDE_TIME \<Rightarrow> nav_attitude_time_run env s)"

subsection \<open>Readings of the command handlers\<close>

datatype ModeRTL_SubMode = RTL_FINAL_DESCENT | RTL_LAND | RTL_OTHER

text \<open>
  What \<^verbatim>\<open>init\<close>, the start handlers and the verify handlers read besides the above.
  \<open>flightmode_is_auto\<close> is \<^verbatim>\<open>copter.flightmode == &copter.mode_auto\<close>;
  \<open>get_alt_cm\<close> is \<^verbatim>\<open>Location::get_alt_cm\<close> and \<open>loc_offset\<close> is
  \<^verbatim>\<open>Location::offset\<close>; \<open>get_terrain_offset_cm\<close>, \<open>get_wp_destination_loc\<close> and
  \<open>get_completion_pos\<close> are \<open>None\<close> when the call returns false;
  \<open>set_wp_destination_loc\<close> is the result of that call for a destination;
  \<open>dist_to_edge\<close> and \<open>circle_edge\<close> are the distance and the location of the
  closest point on the circle, \<open>dist_to_center\<close> the horizontal distance to its centre.
  \<^verbatim>\<open>Wp_and_spline_init_cm None\<close> is the call without arguments.
\<close>

record env = place_env +
  flightmode_is_auto :: bool
  mission_present :: bool
  mission_starts_with_takeoff_cmd :: bool
  continue_after_land_check_for_takeoff :: bool
  motors_armed :: bool
  spool_state_GROUND_IDLE :: bool
  current_loc_initialised :: bool
  get_alt_cm :: alt_conversion
  loc_offset :: "Location \<Rightarrow> Vector3f \<Rightarrow> Location"
  get_pos_offset_NEU_cm :: Vector3f
  get_pos_estimate_NEU_cm_z :: real
  get_terrain_offset_cm :: "real option"
  wp_nav_is_active :: bool
  get_wp_destination_loc :: "Location option"
  set_wp_destination_loc :: "Location \<Rightarrow> bool"
  get_completion_pos :: "Vector3f option"
  wp_yaw_behavior_NONE :: bool
  auto_takeoff_complete :: bool
  rtl_state_complete :: bool
  rtl_state :: ModeRTL_SubMode
  limit_check :: bool
  reached_fixed_yaw_target :: bool
  get_wp_distance_to_destination_cm :: real
  get_distance_to_target_cm :: real
  get_angle_total_rad :: real
  get_rate_degs :: real
  get_radius_cm :: real
  dist_to_edge :: real
  circle_edge :: Location
  dist_to_center :: real

subsection \<open>init\<close>


subsection \<open>Starting a takeoff\<close>

text \<open>The conversion of a \<^verbatim>\<open>float\<close> to \<^verbatim>\<open>int32_t\<close> drops the fraction.\<close>

definition float_to_int32 :: "real \<Rightarrow> int" where
  "float_to_int32 x = (if 0 \<le> x then \<lfloor>x\<rfloor> else \<lceil>x\<rceil>)"

text \<open>
  Arithmetic in \<^verbatim>\<open>float\<close> is IEEE binary32: the exact result is rounded to the
  nearest number with a 24-bit significand, a tie going to the even significand. The
  exponent of a number is that of the power of two at or below its magnitude, and not
  below -126 (smaller numbers are subnormal); \<open>f32_quantum\<close> is the distance between
  neighbouring binary32 numbers there. Overflow to infinity (beyond about 3.4e38) is
  not modelled. \<open>int32_to_float\<close> is the conversion of an integer operand.
\<close>

definition round_half_even :: "real \<Rightarrow> int" where
  "round_half_even r =
     (let f = \<lfloor>r\<rfloor>; d = r - real_of_int f
      in if d < 1 / 2 then f else if 1 / 2 < d then f + 1 else if even f then f else f + 1)"

definition f32_exponent :: "real \<Rightarrow> int" where
  "f32_exponent x = max \<lfloor>log 2 \<bar>x\<bar>\<rfloor> (- 126)"

definition f32_quantum :: "real \<Rightarrow> real" where
  "f32_quantum x = 2 powr real_of_int (f32_exponent x - 23)"

definition round_f32 :: "real \<Rightarrow> real" where
  "round_f32 x = real_of_int (round_half_even (x / f32_quantum x)) * f32_quantum x"

definition float_add :: "real \<Rightarrow> real \<Rightarrow> real" where
  "float_add x y = round_f32 (x + y)"

definition float_sub :: "real \<Rightarrow> real \<Rightarrow> real" where
  "float_sub x y = round_f32 (x - y)"

definition int32_to_float :: "int \<Rightarrow> real" where
  "int32_to_float n = round_f32 (real_of_int n)"

text \<open>
  The first half of \<^verbatim>\<open>takeoff_start\<close>: the target altitude before the sanity check,
  whether it is above terrain, the current altitude in the same frame, and whether the
  terrain data was missing. The position estimate and the terrain offset are
  \<^verbatim>\<open>float\<close> readings.
\<close>

definition takeoff_alt :: "env \<Rightarrow> Location \<Rightarrow> int \<times> bool \<times> real \<times> bool" where
  "takeoff_alt env dest_loc =
     (let current_alt_cm = get_pos_estimate_NEU_cm_z env
      in case (if get_alt_frame dest_loc = ABOVE_TERRAIN then get_terrain_offset_cm env else None) of
           Some terrain_offset \<Rightarrow>
             (alt dest_loc, True, float_sub current_alt_cm terrain_offset, False)
         | None \<Rightarrow>
             let dest = dest_loc\<lparr>lat := lat (current_loc env), lng := lng (current_loc env)\<rparr>
             in (case get_alt_cm env dest ABOVE_ORIGIN of
                   Some alt_target_cm \<Rightarrow> (alt_target_cm, False, current_alt_cm, False)
                 | None \<Rightarrow>
                     (float_to_int32 (float_add current_alt_cm (int32_to_float (alt dest))),
                      False, current_alt_cm, True)))"

text \<open>The sanity check of the target: \<open>alt_target_cm\<close> after the \<^verbatim>\<open>MAX\<close>.\<close>

definition takeoff_alt_target_cm :: "env \<Rightarrow> Location \<Rightarrow> int" where
  "takeoff_alt_target_cm env dest_loc =
     (case takeoff_alt env dest_loc of
        (alt_target_cm, alt_target_terrain, current_alt_cm, missing) \<Rightarrow>
          let alt_target_min_cm =
                float_to_int32
                  (float_add current_alt_cm
                     (int32_to_float (if land_complete env then 100 else 0)))
          in max alt_target_cm alt_target_min_cm)"

definition takeoff_start :: "env \<Rightarrow> Location \<Rightarrow> ModeAuto \<Rightarrow> ModeAuto" where
  "takeoff_start env dest_loc s =
     (if \<not> current_loc_initialised env then emit [Gcs Internal_error_flow_of_control] s
      else
        case takeoff_alt env dest_loc of
          (alt_target_cm, alt_target_terrain, current_alt_cm, missing) \<Rightarrow>
            let s = (if missing then emit [Gcs Log_error_missing_terrain_data] s else s);
                s = auto_yaw_set_mode AutoYaw_HOLD s;
                s = emit [Pos_control Init_U_controller,
                          Mode (Auto_takeoff_start (takeoff_alt_target_cm env dest_loc)
                                  alt_target_terrain)] s
            in set_submode TAKEOFF s)"

subsection \<open>Starting waypoint, loiter, circle and land commands\<close>

definition wp_start :: "env \<Rightarrow> Location \<Rightarrow> ModeAuto \<Rightarrow> bool \<times> ModeAuto" where
  "wp_start env dest_loc s =
     (let s = (if \<not> wp_nav_is_active env
               then
                 let stopping_point =
                       (if auto_mode s = TAKEOFF
                        then (case get_completion_pos env of
                                Some takeoff_complete_pos \<Rightarrow> takeoff_complete_pos
                              | None \<Rightarrow> (0, 0, 0))
                        else (0, 0, 0));
                     des_speed_xy_cm =
                       (if 0 < xy (desired_speed_override s)
                        then xy (desired_speed_override s) * 100 else 0)
                 in emit ([Nav (Wp_and_spline_init_cm (Some (des_speed_xy_cm, stopping_point)))]
                          @ (if 0 < up (desired_speed_override s)
                             then [Nav (Set_speed_up_cms (up (desired_speed_override s) * 100))]
                             else [])
                          @ (if 0 < down (desired_speed_override s)
                             then [Nav (Set_speed_down_cms (down (desired_speed_override s) * 100))]
                             else [])) s
               else s);
          s = emit [Nav (Set_wp_destination_loc dest_loc)] s
      in if \<not> set_wp_destination_loc env dest_loc then (False, s)
         else
           let s = (if auto_yaw_mode s \<noteq> AutoYaw_ROI
                       \<and> \<not> (auto_yaw_mode s = AutoYaw_FIXED \<and> wp_yaw_behavior_NONE env)
                    then auto_yaw_set_mode_to_default s else s)
           in (True, set_submode WP s))"

definition land_start :: "'a tick_env_scheme \<Rightarrow> ModeAuto \<Rightarrow> ModeAuto" where
  "land_start env s =
     (let s = emit ([Pos_control Set_max_speed_accel_NE_cm,
                     Pos_control Set_correction_speed_accel_NE_cm]
                    @ (if \<not> is_active_NE env then [Pos_control Init_NE_controller] else [])
                    @ [Pos_control Set_max_speed_accel_U_cm,
                       Pos_control Set_correction_speed_accel_U_cmss]
                    @ (if \<not> is_active_U env then [Pos_control Init_U_controller] else [])) s;
          s = auto_yaw_set_mode AutoYaw_HOLD s;
          s = emit [Copter Deploy_for_landing] s;
          s = s\<lparr>land_repo_active := False, prec_land_active := False\<rparr>
      in set_submode LAND s)"

definition circle_start :: "ModeAuto \<Rightarrow> ModeAuto" where
  "circle_start s =
     (let s = emit [Nav Circle_nav_init_NEU_cm] s;
          s = (if auto_yaw_mode s \<noteq> AutoYaw_ROI then auto_yaw_set_mode AutoYaw_CIRCLE s else s)
      in set_submode CIRCLE s)"

definition circle_movetoedge_start :: "env \<Rightarrow> Location \<Rightarrow> real \<Rightarrow> bool \<Rightarrow> ModeAuto \<Rightarrow> ModeAuto" where
  "circle_movetoedge_start env circle_center radius_m ccw_turn s =
     (let s = emit ([Nav (Set_center circle_center)]
                    @ (if radius_m \<noteq> 0 then [Nav (Set_radius_cm (radius_m * 100))] else [])
                    @ [Nav (Set_rate_degs (if ccw_turn then - \<bar>get_rate_degs env\<bar>
                                           else \<bar>get_rate_degs env\<bar>))]) s
      in if dist_to_edge env > 300
         then
           let circle_edge' = copy_alt_from circle_center (circle_edge env);
               s = emit ([Nav (Set_wp_destination_loc circle_edge')]
                         @ (if \<not> set_wp_destination_loc env circle_edge'
                            then [Copter Failsafe_terrain_on_event] else [])) s;
               s = (if auto_yaw_mode s \<noteq> AutoYaw_ROI
                    then if dist_to_center env > get_radius_cm env \<and> dist_to_center env > 500
                         then auto_yaw_set_mode_to_default s
                         else auto_yaw_set_mode AutoYaw_HOLD s
                    else s)
           in set_submode CIRCLE_MOVE_TO_EDGE s
         else circle_start s)"

definition subtract_pos_offsets :: "env \<Rightarrow> Location \<Rightarrow> Location" where
  "subtract_pos_offsets env target_loc =
     (case get_pos_offset_NEU_cm env of
        (x, y, z) \<Rightarrow> loc_offset env target_loc (- (x * 0.01), - (y * 0.01), - (- z * 0.01)))"

definition do_loiter_unlimited :: "env \<Rightarrow> Mission_Command \<Rightarrow> ModeAuto \<Rightarrow> ModeAuto" where
  "do_loiter_unlimited env cmd s =
     (let default_loc = subtract_pos_offsets env (current_loc env);
          use_previous = (wp_nav_is_active env \<and> reached_wp_destination env);
          s = (if use_previous \<and> get_wp_destination_loc env = None
               then emit [Gcs Internal_error_flow_of_control] s else s);
          default_loc = (if use_previous
                         then (case get_wp_destination_loc env of
                                 Some dest \<Rightarrow> dest | None \<Rightarrow> default_loc)
                         else default_loc);
          target_loc = loc_from_cmd (get_alt_cm env) cmd default_loc
      in case wp_start env target_loc s of
           (started, s) \<Rightarrow> if \<not> started then emit [Copter Failsafe_terrain_on_event] s else s)"

definition do_circle :: "env \<Rightarrow> Mission_Command \<Rightarrow> ModeAuto \<Rightarrow> ModeAuto" where
  "do_circle env cmd s =
     (let default_loc = subtract_pos_offsets env (current_loc env);
          circle_center = loc_from_cmd (get_alt_cm env) cmd default_loc;
          circle_radius_m = p1 cmd div 256;
          circle_radius_m =
            (if cmd_id cmd = MAV_CMD_NAV_LOITER_TURNS \<and> odd (type_specific_bits cmd)
             then (circle_radius_m * 10) mod 65536 else circle_radius_m);
          circle_direction_ccw = loiter_ccw (location cmd);
          s = circle_movetoedge_start env circle_center (real circle_radius_m)
                circle_direction_ccw s
      in s\<lparr>circle_last_num_complete := - 1\<rparr>)"

definition do_loiter_to_alt :: "env \<Rightarrow> Mission_Command \<Rightarrow> ModeAuto \<Rightarrow> ModeAuto" where
  "do_loiter_to_alt env cmd s =
     (let s = do_loiter_unlimited env cmd s;
          target_loc = location cmd;
          target_loc = (if lat target_loc = 0 \<and> lng target_loc = 0
                        then target_loc\<lparr>lat := lat (current_loc env), lng := lng (current_loc env)\<rparr>
                        else target_loc)
      in case get_alt_cm env target_loc ABOVE_HOME of
           None \<Rightarrow>
             emit [Gcs (Send_text MAV_SEVERITY_INFO ''bad do_loiter_to_alt'' [])]
               (s\<lparr>loiter_to_alt := (loiter_to_alt s)
                     \<lparr>reached_destination_xy := True, reached_alt := True\<rparr>\<rparr>)
         | Some alt_cm \<Rightarrow>
             let s = s\<lparr>loiter_to_alt :=
                         \<lparr>reached_destination_xy = False, loiter_start_done = False,
                          reached_alt = False, alt_error_cm = 0, lta_alt = alt_cm\<rparr>\<rparr>;
                 s = emit [Pos_control Set_max_speed_accel_U_cm,
                           Pos_control Set_correction_speed_accel_U_cmss] s
             in set_submode LOITER_TO_ALT s)"

subsection \<open>Verify handlers\<close>

text \<open>
  A verify handler returns whether the command is complete, and the state it leaves.
  A timer test such as \<^verbatim>\<open>((millis() - loiter_time) / 1000) >= loiter_time_max\<close> is
  unsigned 32-bit arithmetic; the model reads the wrapped difference with \<open>unat\<close>.
\<close>

definition verify_takeoff :: "env \<Rightarrow> ModeAuto \<Rightarrow> bool \<times> ModeAuto" where
  "verify_takeoff env s =
     (auto_takeoff_complete env,
      if auto_takeoff_complete env then emit [Copter Retract_after_takeoff] s else s)"

definition verify_land :: "env \<Rightarrow> ModeAuto \<Rightarrow> bool \<times> ModeAuto" where
  "verify_land env s =
     (case land_state s of
        State_FlyToLocation \<Rightarrow>
          (False,
           if reached_wp_destination env
           then (land_start env s)\<lparr>land_state := State_Descending\<rparr>
           else s)
      | State_Descending \<Rightarrow>
          let retval = (land_complete env \<and> spool_state_GROUND_IDLE env)
          in if retval \<and> \<not> continue_after_land_check_for_takeoff env \<and> motors_armed env
             then (False, emit [Copter (Disarm Method_LANDED)] s)
             else (retval, s))"

definition payload_place_verify :: "ModeAuto \<Rightarrow> bool" where
  "payload_place_verify s =
     (case state (payload_place s) of
        FlyToLocation \<Rightarrow> False | Descent_Start \<Rightarrow> False | Descent \<Rightarrow> False
      | Release \<Rightarrow> False | Releasing \<Rightarrow> False | Delay \<Rightarrow> False
      | Ascent_Start \<Rightarrow> False | Ascent \<Rightarrow> False
      | Done \<Rightarrow> True)"

definition verify_loiter_unlimited :: bool where
  "verify_loiter_unlimited = False"

definition verify_loiter_time :: "env \<Rightarrow> Mission_Command \<Rightarrow> ModeAuto \<Rightarrow> bool \<times> ModeAuto" where
  "verify_loiter_time env cmd s =
     (if \<not> reached_wp_destination env then (False, s)
      else
        let s = (if loiter_time s = 0 then s\<lparr>loiter_time := millis env\<rparr> else s)
        in if unat (millis env - loiter_time s) div 1000 \<ge> loiter_time_max s
           then (True, emit [Gcs (Send_text MAV_SEVERITY_INFO ''Reached command #%i''
                                [Arg_int (int (index cmd))])] s)
           else (False, s))"

definition verify_loiter_to_alt :: "ModeAuto \<Rightarrow> bool" where
  "verify_loiter_to_alt s =
     (if reached_destination_xy (loiter_to_alt s) \<and> reached_alt (loiter_to_alt s)
      then True else False)"

definition verify_RTL :: "env \<Rightarrow> bool" where
  "verify_RTL env =
     (rtl_state_complete env
      \<and> (rtl_state env = RTL_FINAL_DESCENT \<or> rtl_state env = RTL_LAND)
      \<and> spool_state_GROUND_IDLE env)"

definition verify_wait_delay :: "env \<Rightarrow> ModeAuto \<Rightarrow> bool \<times> ModeAuto" where
  "verify_wait_delay env s =
     (if millis env - condition_start s > word_of_int (max (condition_value s) 0)
      then (True, s\<lparr>condition_value := 0\<rparr>)
      else (False, s))"

definition wp_distance_m :: "env \<Rightarrow> ModeAuto \<Rightarrow> real" where
  "wp_distance_m env s =
     (case auto_mode s of
        CIRCLE \<Rightarrow> get_distance_to_target_cm env * 0.01
      | _ \<Rightarrow> get_wp_distance_to_destination_cm env * 0.01)"

definition verify_within_distance :: "env \<Rightarrow> ModeAuto \<Rightarrow> bool \<times> ModeAuto" where
  "verify_within_distance env s =
     (if wp_distance_m env s < real_of_int (max (condition_value s) 0)
      then (True, s\<lparr>condition_value := 0\<rparr>)
      else (False, s))"

definition verify_yaw :: "env \<Rightarrow> ModeAuto \<Rightarrow> bool \<times> ModeAuto" where
  "verify_yaw env s = (reached_fixed_yaw_target env, auto_yaw_set_mode AutoYaw_FIXED s)"

definition verify_nav_wp :: "env \<Rightarrow> Mission_Command \<Rightarrow> ModeAuto \<Rightarrow> bool \<times> ModeAuto" where
  "verify_nav_wp env cmd s =
     (if \<not> reached_wp_destination env then (False, s)
      else
        let s = (if loiter_time s = 0
                 then let s = s\<lparr>loiter_time := millis env\<rparr>
                      in if loiter_time_max s > 0 then emit [Gcs Notify_waypoint_complete] s else s
                 else s)
        in if unat (millis env - loiter_time s) div 1000 \<ge> loiter_time_max s
           then (True,
                 emit ((if loiter_time_max s = 0 then [Gcs Notify_waypoint_complete] else [])
                       @ [Gcs (Send_text MAV_SEVERITY_INFO ''Reached command #%i''
                                 [Arg_int (int (index cmd))])]) s)
           else (False, s))"

text \<open>
  \<^verbatim>\<open>verify_circle\<close>. \<^verbatim>\<open>int(x)\<close> and \<^verbatim>\<open>unsigned(x)\<close> drop the fraction of a
  \<^verbatim>\<open>float\<close>.
\<close>

definition verify_circle :: "env \<Rightarrow> Mission_Command \<Rightarrow> ModeAuto \<Rightarrow> bool \<times> ModeAuto" where
  "verify_circle env cmd s =
     (if auto_mode s = CIRCLE_MOVE_TO_EDGE
      then (False, if reached_wp_destination env then circle_start s else s)
      else
        let turns' = turns cmd;
            num_circles_completed = \<bar>get_angle_total_rad env / (2 * pi)\<bar>;
            s = (if float_to_int32 num_circles_completed
                      \<noteq> float_to_int32 (circle_last_num_complete s)
                 then emit [Gcs (Send_text MAV_SEVERITY_INFO ''Mission: starting circle %u/%u''
                                   [Arg_unsigned (nat (float_to_int32 num_circles_completed) + 1),
                                    Arg_unsigned (nat (float_to_int32 turns'))])]
                        (s\<lparr>circle_last_num_complete := num_circles_completed\<rparr>)
                 else s)
        in (num_circles_completed \<ge> turns', s))"

definition verify_spline_wp :: "env \<Rightarrow> Mission_Command \<Rightarrow> ModeAuto \<Rightarrow> bool \<times> ModeAuto" where
  "verify_spline_wp env cmd s =
     (if \<not> reached_wp_destination env then (False, s)
      else
        let s = (if loiter_time s = 0 then s\<lparr>loiter_time := millis env\<rparr> else s)
        in if unat (millis env - loiter_time s) div 1000 \<ge> loiter_time_max s
           then (True, emit [Gcs (Send_text MAV_SEVERITY_INFO ''Reached command #%i''
                                [Arg_int (int (index cmd))])] s)
           else (False, s))"

definition verify_nav_guided_enable :: "env \<Rightarrow> Mission_Command \<Rightarrow> bool" where
  "verify_nav_guided_enable env cmd = (if p1 cmd = 0 then True else limit_check env)"

definition verify_nav_delay :: "env \<Rightarrow> Mission_Command \<Rightarrow> ModeAuto \<Rightarrow> bool \<times> ModeAuto" where
  "verify_nav_delay env cmd s =
     (if millis env - nav_delay_time_start_ms s > nav_delay_time_max_ms s
      then (True, s\<lparr>nav_delay_time_max_ms := 0\<rparr>)
      else (False, s))"

definition verify_nav_script_time :: "env \<Rightarrow> ModeAuto \<Rightarrow> bool" where
  "verify_nav_script_time env s =
     (if script_done (nav_scripting s)
         \<or> (timeout_s (nav_scripting s) > 0
            \<and> unat (millis env - scr_start_ms (nav_scripting s))
                > timeout_s (nav_scripting s) * 1000)
      then True else False)"

definition verify_nav_attitude_time :: "env \<Rightarrow> Mission_Command \<Rightarrow> ModeAuto \<Rightarrow> bool" where
  "verify_nav_attitude_time env cmd s =
     (unat (millis env - start_ms (nav_attitude_time s)) > time_sec cmd * 1000)"

text \<open>
  The \<^verbatim>\<open>switch (cmd.id)\<close> of \<^verbatim>\<open>verify_command\<close>: \<open>Inl\<close> is a \<^verbatim>\<open>return\<close> from
  inside the switch, \<open>Inr\<close> the value of \<open>cmd_complete\<close> at a \<^verbatim>\<open>break\<close>.
\<close>

definition verify_switch ::
  "env \<Rightarrow> Mission_Command \<Rightarrow> ModeAuto \<Rightarrow> (bool \<times> ModeAuto) + (bool \<times> ModeAuto)" where
  "verify_switch env cmd s =
     (case cmd_id cmd of
        MAV_CMD_NAV_VTOL_TAKEOFF \<Rightarrow> Inr (verify_takeoff env s)
      | MAV_CMD_NAV_TAKEOFF \<Rightarrow> Inr (verify_takeoff env s)
      | MAV_CMD_NAV_WAYPOINT \<Rightarrow> Inr (verify_nav_wp env cmd s)
      | MAV_CMD_NAV_VTOL_LAND \<Rightarrow> Inr (verify_land env s)
      | MAV_CMD_NAV_LAND \<Rightarrow> Inr (verify_land env s)
      | MAV_CMD_NAV_PAYLOAD_PLACE \<Rightarrow> Inr (payload_place_verify s, s)
      | MAV_CMD_NAV_LOITER_UNLIM \<Rightarrow> Inr (verify_loiter_unlimited, s)
      | MAV_CMD_NAV_LOITER_TURNS \<Rightarrow> Inr (verify_circle env cmd s)
      | MAV_CMD_NAV_LOITER_TIME \<Rightarrow> Inr (verify_loiter_time env cmd s)
      | MAV_CMD_NAV_LOITER_TO_ALT \<Rightarrow> Inl (verify_loiter_to_alt s, s)
      | MAV_CMD_NAV_RETURN_TO_LAUNCH \<Rightarrow> Inr (verify_RTL env, s)
      | MAV_CMD_NAV_SPLINE_WAYPOINT \<Rightarrow> Inr (verify_spline_wp env cmd s)
      | MAV_CMD_NAV_GUIDED_ENABLE \<Rightarrow> Inr (verify_nav_guided_enable env cmd, s)
      | MAV_CMD_NAV_DELAY \<Rightarrow> Inr (verify_nav_delay env cmd s)
      | MAV_CMD_NAV_SCRIPT_TIME \<Rightarrow> Inr (verify_nav_script_time env s, s)
      | MAV_CMD_NAV_ATTITUDE_TIME \<Rightarrow> Inr (verify_nav_attitude_time env cmd s, s)
      | MAV_CMD_CONDITION_DELAY \<Rightarrow> Inr (verify_wait_delay env s)
      | MAV_CMD_CONDITION_DISTANCE \<Rightarrow> Inr (verify_within_distance env s)
      | MAV_CMD_CONDITION_YAW \<Rightarrow> Inr (verify_yaw env s)
      | MAV_CMD_DO_CHANGE_SPEED \<Rightarrow> Inr (True, s)
      | MAV_CMD_DO_SET_HOME \<Rightarrow> Inr (True, s)
      | MAV_CMD_DO_SET_ROI_LOCATION \<Rightarrow> Inr (True, s)
      | MAV_CMD_DO_SET_ROI_NONE \<Rightarrow> Inr (True, s)
      | MAV_CMD_DO_SET_ROI \<Rightarrow> Inr (True, s)
      | MAV_CMD_DO_MOUNT_CONTROL \<Rightarrow> Inr (True, s)
      | MAV_CMD_DO_GUIDED_LIMITS \<Rightarrow> Inr (True, s)
      | MAV_CMD_DO_FENCE_ENABLE \<Rightarrow> Inr (True, s)
      | MAV_CMD_DO_WINCH \<Rightarrow> Inr (True, s)
      | MAV_CMD_DO_RETURN_PATH_START \<Rightarrow> Inr (True, s)
      | MAV_CMD_DO_LAND_START \<Rightarrow> Inr (True, s)
      | MAV_CMD_OTHER n \<Rightarrow>
          Inr (True, emit [Gcs (Send_text MAV_SEVERITY_WARNING ''Skipping invalid cmd #%i''
                                  [Arg_int (int n)])] s))"

definition verify_command :: "env \<Rightarrow> Mission_Command \<Rightarrow> ModeAuto \<Rightarrow> bool \<times> ModeAuto" where
  "verify_command env cmd s =
     (if \<not> flightmode_is_auto env then (False, s)
      else
        case verify_switch env cmd s of
          Inl returned \<Rightarrow> returned
        | Inr (cmd_complete, s) \<Rightarrow>
            (cmd_complete,
             if cmd_complete
             then emit [Gcs (Send_mission_item_reached_message (index cmd))] s
             else s))"

text \<open>
  The calls made between two states, and those among them that send the
  mission-item-reached message.
\<close>

definition emitted :: "ModeAuto \<Rightarrow> ModeAuto \<Rightarrow> call list" where
  "emitted s s' = drop (length (out s)) (out s')"

fun is_mission_item_reached :: "call \<Rightarrow> bool" where
  "is_mission_item_reached (Gcs (Send_mission_item_reached_message i)) = True"
| "is_mission_item_reached c = False"

text \<open>A step from \<open>s\<close> to \<open>s'\<close> that only adds calls, none of them that message.\<close>

definition quiet :: "ModeAuto \<Rightarrow> ModeAuto \<Rightarrow> bool" where
  "quiet s s' = (\<exists>cs. out s' = out s @ cs \<and> filter is_mission_item_reached cs = [])"

text \<open>The polls of \<^verbatim>\<open>verify_circle\<close> that the mission library makes, one after another.\<close>

fun verify_circle_polls ::
  "env list \<Rightarrow> Mission_Command \<Rightarrow> ModeAuto \<Rightarrow> bool list \<times> ModeAuto" where
  "verify_circle_polls [] cmd s = ([], s)"
| "verify_circle_polls (env # envs) cmd s =
     (case verify_circle env cmd s of
        (cmd_complete, s) \<Rightarrow>
          (case verify_circle_polls envs cmd s of
             (results, s) \<Rightarrow> (cmd_complete # results, s)))"

text \<open>Any ticks of the mode, each dispatched on the submode of the moment.\<close>

fun run_ticks :: "'a place_env_scheme list \<Rightarrow> ModeAuto \<Rightarrow> ModeAuto" where
  "run_ticks [] s = s"
| "run_ticks (env # envs) s = run_ticks envs (run_dispatch env s)"

subsection \<open>Repeated ticks and the order of the payload-place states\<close>

text \<open>The scheduler calls the tick again and again, each time with new readings.\<close>

fun loiter_to_alt_ticks :: "'a tick_env_scheme list \<Rightarrow> ModeAuto \<Rightarrow> ModeAuto" where
  "loiter_to_alt_ticks [] s = s"
| "loiter_to_alt_ticks (env # envs) s = loiter_to_alt_ticks envs (loiter_to_alt_run env s)"

text \<open>The position of a state in the declaration of \<^verbatim>\<open>PayloadPlace::State\<close>.\<close>

definition state_order :: "PayloadPlace_State \<Rightarrow> nat" where
  "state_order st =
     (case st of
        FlyToLocation \<Rightarrow> 0 | Descent_Start \<Rightarrow> 1 | Descent \<Rightarrow> 2 | Release \<Rightarrow> 3
      | Releasing \<Rightarrow> 4 | Delay \<Rightarrow> 5 | Ascent_Start \<Rightarrow> 6 | Ascent \<Rightarrow> 7 | Done \<Rightarrow> 8)"

text \<open>The changes of state that one call of \<^verbatim>\<open>PayloadPlace::run\<close> can make.\<close>

definition run_edges :: "(PayloadPlace_State \<times> PayloadPlace_State) list" where
  "run_edges =
     [(FlyToLocation, Descent_Start), (FlyToLocation, Done),
      (Descent_Start, Descent), (Descent_Start, Ascent_Start), (Descent_Start, Done),
      (Descent, Release), (Descent, Releasing), (Descent, Delay), (Descent, Ascent_Start),
      (Release, Releasing), (Release, Delay),
      (Releasing, Delay), (Releasing, Ascent), (Releasing, Done),
      (Delay, Ascent), (Delay, Done),
      (Ascent_Start, Ascent), (Ascent_Start, Done),
      (Ascent, Done)]"

subsection \<open>Sample readings and states\<close>

text \<open>
  \<open>flight_env\<close>: the vehicle is armed and flying at 980 cm, no gripper fitted.
  \<open>ground_env\<close>: the same vehicle disarmed or landed, the position controller still
  holding a nonzero thrust vector. \<open>start_state\<close>: the mode as \<^verbatim>\<open>init\<close> leaves it.
\<close>

definition flight_env :: env where
  "flight_env =
     \<lparr>is_disarmed_or_landed = False, get_interlock = True, auto_options = 0,
      AllowTakeOffWithoutRaisingThrottle = 2, update_wpnav = True, update_cms = True,
      get_thrust_vector = (0, 0, - 0.4), reached_wp_destination_NE = True,
      is_active_NE = True, is_active_U = True,
      current_loc = \<lparr>lat = 10, lng = 20, alt = 980, alt_frame = ABOVE_HOME, loiter_ccw = False\<rparr>,
      sqrt_controller = (\<lambda>error p second_ord_lim dt. error * p), kP = 1,
      get_max_accel_U_cmss = 250, G_Dt = 0.0025,
      get_max_speed_down_cms = - 150, get_max_speed_up_cms = 250,
      get_avoidance_adjusted_climbrate_cms = (\<lambda>rate. rate),
      lean_angle_max_rad = 0.5, get_althold_lean_angle_max_rad = 0.5,
      limit_length = (\<lambda>v max_length. v),
      land_complete = False, land_complete_maybe = False,
      gripper_valid = False, gripper_released = False,
      reached_wp_destination = False, millis = 60000,
      get_throttle_in = 0.4, get_pos_desired_U_cm = 980, get_vel_desired_NEU_cms_z = 0,
      pldp_descent_speed_ms = 0, land_speed = 50, get_default_speed_down_cms = 150,
      pldp_thrust_placed_fraction = 0.9, pldp_range_finder_maximum_m = 0,
      rangefinder_enabled = False, rangefinder_alt_ok = False,
      rangefinder_glitch_count = 0, rangefinder_alt_cm = 0, pldp_delay_s = 0,
      flightmode_is_auto = True, mission_present = True,
      mission_starts_with_takeoff_cmd = True, continue_after_land_check_for_takeoff = False,
      motors_armed = True, spool_state_GROUND_IDLE = False, current_loc_initialised = True,
      get_alt_cm = same_frame_get_alt_cm, loc_offset = (\<lambda>loc ofs. loc),
      get_pos_offset_NEU_cm = (0, 0, 0), get_pos_estimate_NEU_cm_z = 980,
      get_terrain_offset_cm = None, wp_nav_is_active = True,
      get_wp_destination_loc = None, set_wp_destination_loc = (\<lambda>loc. True),
      get_completion_pos = None, wp_yaw_behavior_NONE = False,
      auto_takeoff_complete = True, rtl_state_complete = False, rtl_state = RTL_OTHER,
      limit_check = False, reached_fixed_yaw_target = False,
      get_wp_distance_to_destination_cm = 0, get_distance_to_target_cm = 0,
      get_angle_total_rad = 0, get_rate_degs = 20, get_radius_cm = 1000,
      dist_to_edge = 0,
      circle_edge = \<lparr>lat = 10, lng = 20, alt = 0, alt_frame = ABOVE_ORIGIN, loiter_ccw = False\<rparr>,
      dist_to_center = 1000\<rparr>"

definition ground_env :: env where
  "ground_env = flight_env\<lparr>is_disarmed_or_landed := True\<rparr>"

definition start_state :: ModeAuto where
  "start_state =
     \<lparr>auto_mode = LOITER, auto_RTL = False, waiting_to_start = True,
      desired_speed_override = \<lparr>xy = 0, up = 0, down = 0\<rparr>,
      auto_yaw_mode = AutoYaw_HOLD, loiter_time = 0, loiter_time_max = 0,
      condition_value = 0, condition_start = 0,
      nav_delay_time_max_ms = 0, nav_delay_time_start_ms = 0,
      nav_scripting = \<lparr>script_done = False, timeout_s = 0, scr_start_ms = 0\<rparr>,
      nav_attitude_time = \<lparr>roll_deg = 0, pitch_deg = 0, yaw_deg = 0, climb_rate = 0, start_ms = 0\<rparr>,
      loiter_to_alt = \<lparr>reached_destination_xy = False, loiter_start_done = False,
                       reached_alt = False, alt_error_cm = 0, lta_alt = 0\<rparr>,
      land_state = State_Descending, circle_last_num_complete = 0,
      payload_place = \<lparr>state = FlyToLocation, descent_established_time_ms = 0,
                       place_start_time_ms = 0, descent_thrust_level = 0,
                       descent_start_altitude_cm = 0, descent_speed_cms = 0,
                       descent_max_cm = 0\<rparr>,
      land_repo_active = False, prec_land_active = False, out = []\<rparr>"

section \<open>Properties\<close>

subsection \<open>Ticks while disarmed or landed\<close>

lemma out_emit [simp]: "out (emit cs s) = out s @ cs"
  by (simp add: emit_def)

lemma loiter_to_alt_emit [simp]: "loiter_to_alt (emit cs s) = loiter_to_alt s"
  by (simp add: emit_def)

lemma payload_place_emit [simp]: "payload_place (emit cs s) = payload_place s"
  by (simp add: emit_def)

lemma auto_mode_emit [simp]: "auto_mode (emit cs s) = auto_mode s"
  by (simp add: emit_def)

text \<open>
  The ticks that test \<^verbatim>\<open>is_disarmed_or_landed()\<close> themselves do nothing but command
  safe ground handling.
\<close>

lemma guarded_ticks_safe:
  assumes "is_disarmed_or_landed env"
    and "auto_mode s \<in> {WP, CIRCLE_MOVE_TO_EDGE, LAND, LOITER, LOITER_TO_ALT,
                          NAV_PAYLOAD_PLACE, NAV_ATTITUDE_TIME}"
  shows "run_dispatch env s = emit [Mode Make_safe_ground_handling] s"
  using assms
  by (auto simp: run_dispatch_def wp_run_def land_run_def loiter_run_def
      loiter_to_alt_run_def payload_place_run_def nav_attitude_time_run_def)

text \<open>
  C1: in every submode the tick of a disarmed or landed vehicle commands safe ground
  handling and no thrust. The code does not do this in the Circle submode:
  \<^verbatim>\<open>circle_run\<close> has no test of \<^verbatim>\<open>is_disarmed_or_landed()\<close>. On the ground, with the
  position controller holding the thrust vector (0, 0, -0.4), the tick updates the circle
  and position controllers and hands that thrust vector to the attitude controller;
  safe ground handling is not commanded. The waypoint tick with the same readings
  commands safe ground handling only.
\<close>

theorem circle_run_when_disarmed_or_landed:
  "is_disarmed_or_landed ground_env
   \<and> out (run_dispatch ground_env (start_state\<lparr>auto_mode := CIRCLE\<rparr>))
       = [Nav Update_cms, Copter (Failsafe_terrain_set_status True),
          Pos_control Update_U_controller,
          Attitude_control (Input_thrust_vector_heading (0, 0, - 0.4))]
   \<and> Mode Make_safe_ground_handling
       \<notin> set (out (run_dispatch ground_env (start_state\<lparr>auto_mode := CIRCLE\<rparr>)))
   \<and> out (run_dispatch ground_env (start_state\<lparr>auto_mode := WP\<rparr>))
       = [Mode Make_safe_ground_handling]"
  by (simp add: run_dispatch_def circle_run_def wp_run_def ground_env_def flight_env_def
      start_state_def)

subsection \<open>Loiter to altitude\<close>

lemma loiter_to_alt_wp_run [simp]: "loiter_to_alt (wp_run env s) = loiter_to_alt s"
  by (simp add: wp_run_def)

lemma reached_alt_tick:
  "reached_alt (loiter_to_alt (loiter_to_alt_run env s)) =
     (if \<not> is_disarmed_or_landed env \<and> get_interlock env
         \<and> (reached_destination_xy (loiter_to_alt s) \<or> reached_wp_destination_NE env)
      then reached_alt (loiter_to_alt s)
           \<or> \<bar>real_of_int (alt (current_loc env) - lta_alt (loiter_to_alt s))\<bar> < 5
           \<or> real_of_int (alt (current_loc env) - lta_alt (loiter_to_alt s))
               * alt_error_cm (loiter_to_alt s) < 0
      else reached_alt (loiter_to_alt s))"
  by (simp add: loiter_to_alt_run_def Let_def)

lemma reached_destination_xy_tick:
  "reached_destination_xy (loiter_to_alt s) \<Longrightarrow>
   reached_destination_xy (loiter_to_alt (loiter_to_alt_run env s))"
  by (simp add: loiter_to_alt_run_def Let_def)

lemma reached_alt_ticks:
  "reached_alt (loiter_to_alt s) \<Longrightarrow> reached_alt (loiter_to_alt (loiter_to_alt_ticks envs s))"
  by (induction envs arbitrary: s) (simp_all add: reached_alt_tick)

lemma reached_destination_xy_ticks:
  "reached_destination_xy (loiter_to_alt s) \<Longrightarrow>
   reached_destination_xy (loiter_to_alt (loiter_to_alt_ticks envs s))"
  by (induction envs arbitrary: s) (simp_all add: reached_destination_xy_tick)

text \<open>
  C3: in a tick that gets as far as the altitude test (armed and flying, interlock on,
  horizontal destination reached), the reached-altitude flag afterwards is true exactly
  when it was true before, or the altitude error is below 5 cm in magnitude, or the
  product of this tick's and the previous tick's errors is negative; the error is then
  remembered for the next tick. A tick that does not get that far leaves the flag as
  it is. Once true the flag stays true over any number of further ticks. An error that
  goes from positive to negative in one tick sets the flag, whatever its magnitude.
\<close>

theorem loiter_to_alt_reached_alt:
  "(\<not> is_disarmed_or_landed env \<and> get_interlock env
      \<and> (reached_destination_xy (loiter_to_alt s) \<or> reached_wp_destination_NE env) \<longrightarrow>
      reached_alt (loiter_to_alt (loiter_to_alt_run env s))
        = (reached_alt (loiter_to_alt s)
           \<or> \<bar>real_of_int (alt (current_loc env) - lta_alt (loiter_to_alt s))\<bar> < 5
           \<or> real_of_int (alt (current_loc env) - lta_alt (loiter_to_alt s))
               * alt_error_cm (loiter_to_alt s) < 0)
      \<and> alt_error_cm (loiter_to_alt (loiter_to_alt_run env s))
          = real_of_int (alt (current_loc env) - lta_alt (loiter_to_alt s)))
   \<and> (\<not> (\<not> is_disarmed_or_landed env \<and> get_interlock env
          \<and> (reached_destination_xy (loiter_to_alt s) \<or> reached_wp_destination_NE env)) \<longrightarrow>
      reached_alt (loiter_to_alt (loiter_to_alt_run env s)) = reached_alt (loiter_to_alt s))
   \<and> (reached_alt (loiter_to_alt s) \<longrightarrow>
      reached_alt (loiter_to_alt (loiter_to_alt_ticks envs s)))
   \<and> (\<not> is_disarmed_or_landed env \<and> get_interlock env
      \<and> (reached_destination_xy (loiter_to_alt s) \<or> reached_wp_destination_NE env)
      \<and> 0 < alt_error_cm (loiter_to_alt s)
      \<and> alt (current_loc env) - lta_alt (loiter_to_alt s) < 0 \<longrightarrow>
      reached_alt (loiter_to_alt (loiter_to_alt_run env s)))"
proof -
  have neg: "real_of_int (alt (current_loc env) - lta_alt (loiter_to_alt s))
               * alt_error_cm (loiter_to_alt s) < 0"
    if "0 < alt_error_cm (loiter_to_alt s)"
      and "alt (current_loc env) - lta_alt (loiter_to_alt s) < 0"
    using that by (simp add: mult_neg_pos)
  have err: "alt_error_cm (loiter_to_alt (loiter_to_alt_run env s))
          = real_of_int (alt (current_loc env) - lta_alt (loiter_to_alt s))"
    if "\<not> is_disarmed_or_landed env" "get_interlock env"
      "reached_destination_xy (loiter_to_alt s) \<or> reached_wp_destination_NE env"
    using that by (auto simp: loiter_to_alt_run_def Let_def)
  show ?thesis
    using neg err reached_alt_ticks [of s envs] by (auto simp: reached_alt_tick)
qed

theorem loiter_to_alt_reached_alt_witness:
  "\<not> is_disarmed_or_landed flight_env \<and> get_interlock flight_env
   \<and> reached_wp_destination_NE flight_env
   \<and> alt (current_loc flight_env) - 1000 = - 20
   \<and> reached_alt (loiter_to_alt (loiter_to_alt_run flight_env
        (start_state\<lparr>loiter_to_alt :=
           \<lparr>reached_destination_xy = True, loiter_start_done = True, reached_alt = False,
            alt_error_cm = 30, lta_alt = 1000\<rparr>\<rparr>)))"
  using loiter_to_alt_reached_alt [of flight_env
      "start_state\<lparr>loiter_to_alt :=
           \<lparr>reached_destination_xy = True, loiter_start_done = True, reached_alt = False,
            alt_error_cm = 30, lta_alt = 1000\<rparr>\<rparr>" "[]"]
  by (simp add: flight_env_def start_state_def)

subsection \<open>Payload place\<close>

lemma state_set_state [simp]: "state (payload_place (set_state st s)) = st"
  by (simp add: set_state_def)

lemma payload_place_wp_run [simp]: "payload_place (wp_run env s) = payload_place s"
  by (simp add: wp_run_def)

lemma payload_place_auto_yaw_set_mode [simp]:
  "payload_place (auto_yaw_set_mode m s) = payload_place s"
  by (simp add: auto_yaw_set_mode_def)

lemma state_place_output [simp]:
  "state (payload_place (place_output env s)) = state (payload_place s)"
  by (cases "state (payload_place s)") (simp_all add: place_output_def Let_def)

lemma case_Ascent_edges:
  "state (payload_place (case_Ascent env s)) = state (payload_place s)
   \<or> state (payload_place (case_Ascent env s)) = Done"
  by (simp add: case_Ascent_def Let_def)

lemma case_Ascent_Start_edges:
  "state (payload_place (case_Ascent_Start env s)) \<in> {Ascent, Done}"
  using case_Ascent_edges [of env "set_state Ascent s"] by (auto simp: case_Ascent_Start_def)

lemma case_Delay_edges:
  "state (payload_place (case_Delay env s)) \<in> {state (payload_place s), Ascent, Done}"
  using case_Ascent_Start_edges [of env s] by (auto simp: case_Delay_def)

lemma case_Releasing_edges:
  "state (payload_place (case_Releasing env s)) \<in> {state (payload_place s), Delay, Ascent, Done}"
  using case_Delay_edges [of env "set_state Delay s"] by (auto simp: case_Releasing_def)

lemma case_Release_edges:
  "state (payload_place (case_Release env s)) \<in> {Releasing, Delay}"
  by (simp add: case_Release_def Let_def)

lemma case_Descent_edges:
  "state (payload_place (case_Descent env s)) \<in> {state (payload_place s), Ascent_Start, Release}"
  by (simp add: case_Descent_def Let_def set_place_start_time_ms_def)

lemma case_Descent_Start_edges:
  "state (payload_place (case_Descent_Start env s)) \<in> {Descent, Ascent_Start}"
  by (simp add: case_Descent_Start_def case_Descent_def Let_def set_place_start_time_ms_def
      descent_thrust_cal_duration_ms_def)

lemma case_FlyToLocation_edges:
  "state (payload_place (case_FlyToLocation env s)) \<in> {state (payload_place s), Descent_Start}"
  by (simp add: case_FlyToLocation_def start_descent_def Let_def)

lemma place_switch_edges:
  "state (payload_place (place_switch env s)) = state (payload_place s)
   \<or> (state (payload_place s), state (payload_place (place_switch env s))) \<in> set run_edges"
  using case_FlyToLocation_edges [of env s] case_Descent_Start_edges [of env s]
    case_Descent_edges [of env s] case_Release_edges [of env s]
    case_Releasing_edges [of env s] case_Delay_edges [of env s]
    case_Ascent_Start_edges [of env s] case_Ascent_edges [of env s]
  by (cases "state (payload_place s)") (auto simp: place_switch_def run_edges_def)

lemma place_landed_state:
  "state (payload_place (place_landed env s)) =
     (if (land_complete env \<or> land_complete_maybe env) \<and> state (payload_place s) = Descent
      then Release else state (payload_place s))"
  by (cases "state (payload_place s)") (simp_all add: place_landed_def Let_def)

lemma place_gripper_state:
  "state (payload_place (place_gripper env s)) =
     (if gripper_valid env \<and> gripper_released env
      then (case state (payload_place s) of
              FlyToLocation \<Rightarrow> Done | Descent_Start \<Rightarrow> Done | Descent \<Rightarrow> Release | st \<Rightarrow> st)
      else state (payload_place s))"
  by (cases "state (payload_place s)") (simp_all add: place_gripper_def Let_def)

lemma payload_place_run_edges:
  "state (payload_place (payload_place_run env s)) = state (payload_place s)
   \<or> (state (payload_place s), state (payload_place (payload_place_run env s))) \<in> set run_edges"
proof (cases "is_disarmed_or_landed env")
  case True
  then show ?thesis by (simp add: payload_place_run_def)
next
  case False
  define s1 where
    "s1 = place_landed env (emit [Copter (Set_desired_spool_state THROTTLE_UNLIMITED)] s)"
  define s2 where "s2 = place_gripper env s1"
  have run: "state (payload_place (payload_place_run env s))
               = state (payload_place (place_switch env s2))"
    using False by (simp add: payload_place_run_def Let_def s1_def s2_def)
  have st1: "state (payload_place s1) =
     (if (land_complete env \<or> land_complete_maybe env) \<and> state (payload_place s) = Descent
      then Release else state (payload_place s))"
    by (simp add: s1_def place_landed_state)
  have st2: "state (payload_place s2) =
     (if gripper_valid env \<and> gripper_released env
      then (case state (payload_place s1) of
              FlyToLocation \<Rightarrow> Done | Descent_Start \<Rightarrow> Done | Descent \<Rightarrow> Release | st \<Rightarrow> st)
      else state (payload_place s1))"
    by (simp add: s2_def place_gripper_state)
  show ?thesis
    using place_switch_edges [of env s2] case_Release_edges [of env s2]
    unfolding run
    by (cases "state (payload_place s)")
       (auto simp: st1 st2 run_edges_def place_switch_def split: if_splits)
qed

text \<open>
  C2, as stated, fails: there are skipping edges that do not go to Ascent\_Start. With
  the gripper opened by hand while the vehicle flies to the location, one call of
  \<^verbatim>\<open>run\<close> takes the state from FlyToLocation to Done, which is neither the next state
  nor Ascent\_Start.
\<close>

theorem payload_place_run_skips_to_Done:
  "state (payload_place start_state) = FlyToLocation
   \<and> state (payload_place (payload_place_run
        (flight_env\<lparr>gripper_valid := True, gripper_released := True\<rparr>) start_state)) = Done
   \<and> state_order Done \<noteq> Suc (state_order FlyToLocation)
   \<and> Done \<noteq> Ascent_Start"
  by (simp add: payload_place_run_def place_landed_def place_gripper_def place_switch_def
      place_output_def emit_def set_state_def state_order_def flight_env_def start_state_def)

text \<open>
  C2, amended: a call of \<^verbatim>\<open>PayloadPlace::run\<close> leaves the state where it is or moves
  it forward along the order FlyToLocation, Descent\_Start, Descent, Release, Releasing,
  Delay, Ascent\_Start, Ascent, Done; no edge goes backward. Forward edges may skip
  states: the change made by one call is one of those listed in \<open>run_edges\<close>, among
  them the aborts to Ascent\_Start and the manual-release edges to Done.
\<close>

theorem payload_place_run_forward:
  "state_order (state (payload_place s))
     \<le> state_order (state (payload_place (payload_place_run env s)))
   \<and> (state (payload_place (payload_place_run env s)) = state (payload_place s)
      \<or> (state (payload_place s), state (payload_place (payload_place_run env s)))
          \<in> set run_edges)"
proof -
  have forward: "state_order a \<le> state_order b" if "(a, b) \<in> set run_edges" for a b
    using that by (auto simp: run_edges_def state_order_def)
  show ?thesis
    using payload_place_run_edges [of env s] forward by auto
qed

theorem payload_place_run_forward_witness:
  "state (payload_place (payload_place_run (flight_env\<lparr>land_complete := True\<rparr>)
            (start_state\<lparr>payload_place := (payload_place start_state)\<lparr>state := Descent\<rparr>\<rparr>)))
     = Delay
   \<and> state_order Descent \<le> state_order Delay
   \<and> (Descent, Delay) \<in> set run_edges"
  using payload_place_run_forward [of
      "start_state\<lparr>payload_place := (payload_place start_state)\<lparr>state := Descent\<rparr>\<rparr>"
      "flight_env\<lparr>land_complete := True\<rparr>"]
  by (simp add: payload_place_run_def place_landed_def place_gripper_def place_switch_def
      case_Release_def place_output_def emit_def set_state_def state_order_def run_edges_def
      flight_env_def start_state_def)

subsection \<open>Waypoint location resolution\<close>

lemmas loc_simps = loc_from_cmd_def get_alt_frame_def set_alt_cm_def copy_alt_from_def
  same_frame_get_alt_cm_def Let_def

text \<open>
  C7, as stated, fails: latitude and longitude are not resolved independently. A command
  with latitude 0 and longitude 7 keeps its latitude 0 although the default location's
  latitude is 10.
\<close>

theorem loc_from_cmd_lat_not_independent:
  "lat (location (sample_cmd\<lparr>location := (location sample_cmd)\<lparr>lng := 7\<rparr>\<rparr>)) = 0
   \<and> lat (loc_from_cmd same_frame_get_alt_cm
             (sample_cmd\<lparr>location := (location sample_cmd)\<lparr>lng := 7\<rparr>\<rparr>) sample_default_loc) = 0
   \<and> lat sample_default_loc = 10"
  by (simp add: loc_simps sample_cmd_def sample_default_loc_def)

text \<open>
  C7, amended: latitude and longitude are taken from the default location together, and
  only when both are zero in the command; otherwise both are kept. The altitude is
  resolved on its own: a nonzero altitude is kept with its frame, a zero altitude becomes
  the default location's altitude converted into the command's frame, or, when that
  conversion fails, the default location's altitude together with its frame. The
  command with lat 0, lon 0, alt 500 and the default (10, 20, 300) resolves to
  (10, 20, 500).
\<close>

theorem loc_from_cmd_resolution:
  "(lat (location cmd) = 0 \<and> lng (location cmd) = 0 \<longrightarrow>
      lat (loc_from_cmd conv cmd default_loc) = lat default_loc
    \<and> lng (loc_from_cmd conv cmd default_loc) = lng default_loc)
   \<and> (\<not> (lat (location cmd) = 0 \<and> lng (location cmd) = 0) \<longrightarrow>
      lat (loc_from_cmd conv cmd default_loc) = lat (location cmd)
    \<and> lng (loc_from_cmd conv cmd default_loc) = lng (location cmd))
   \<and> (alt (location cmd) \<noteq> 0 \<longrightarrow>
      alt (loc_from_cmd conv cmd default_loc) = alt (location cmd)
    \<and> alt_frame (loc_from_cmd conv cmd default_loc) = alt_frame (location cmd))
   \<and> (alt (location cmd) = 0 \<longrightarrow>
      (\<forall>a. conv default_loc (alt_frame (location cmd)) = Some a \<longrightarrow>
         alt (loc_from_cmd conv cmd default_loc) = a
       \<and> alt_frame (loc_from_cmd conv cmd default_loc) = alt_frame (location cmd))
    \<and> (conv default_loc (alt_frame (location cmd)) = None \<longrightarrow>
         alt (loc_from_cmd conv cmd default_loc) = alt default_loc
       \<and> alt_frame (loc_from_cmd conv cmd default_loc) = alt_frame default_loc))
   \<and> (lat (location cmd) = 0 \<and> lng (location cmd) = 0 \<and> alt (location cmd) = 500
      \<and> lat default_loc = 10 \<and> lng default_loc = 20 \<and> alt default_loc = 300 \<longrightarrow>
      lat (loc_from_cmd conv cmd default_loc) = 10
    \<and> lng (loc_from_cmd conv cmd default_loc) = 20
    \<and> alt (loc_from_cmd conv cmd default_loc) = 500)"
  by (auto simp: loc_simps split: option.splits)

theorem loc_from_cmd_resolution_witness:
  "loc_from_cmd same_frame_get_alt_cm sample_cmd sample_default_loc
   = \<lparr>lat = 10, lng = 20, alt = 500, alt_frame = ABOVE_HOME, loiter_ccw = False\<rparr>"
  using loc_from_cmd_resolution [of sample_cmd same_frame_get_alt_cm sample_default_loc]
  by (simp add: loc_simps sample_cmd_def sample_default_loc_def)

subsection \<open>Entering the mode\<close>




subsection \<open>Binary32 rounding\<close>

lemma round_half_even_ge: "\<lfloor>r\<rfloor> \<le> round_half_even r"
  by (simp add: round_half_even_def Let_def)

lemma round_half_even_of_int [simp]: "round_half_even (real_of_int m) = m"
  by (simp add: round_half_even_def Let_def)

lemma f32_quantum_pos: "0 < f32_quantum x"
  by (simp add: f32_quantum_def)

lemma f32_exponent_eq:
  assumes "2 powr real_of_int k \<le> \<bar>x\<bar>" "\<bar>x\<bar> < 2 powr real_of_int (k + 1)" "- 126 \<le> k"
  shows "f32_exponent x = k"
proof -
  have "0 < \<bar>x\<bar>" using assms(1) by (smt (verit) powr_gt_zero)
  then have "\<lfloor>log 2 \<bar>x\<bar>\<rfloor> = k"
    using assms by (simp add: floor_log_eq_powr_iff)
  then show ?thesis using assms(3) by (simp add: f32_exponent_def)
qed

lemma f32_quantum_nat:
  assumes "2 ^ k \<le> \<bar>x\<bar>" "\<bar>x\<bar> < 2 ^ Suc k"
  shows "f32_quantum x = 2 ^ k / 2 ^ 23"
proof -
  have "f32_exponent x = int k"
    using assms by (intro f32_exponent_eq) (simp_all add: powr_realpow powr_add)
  then show ?thesis
    by (simp add: f32_quantum_def powr_diff powr_realpow)
qed

lemma round_f32_nat:
  assumes "2 ^ k \<le> \<bar>x\<bar>" "\<bar>x\<bar> < 2 ^ Suc k"
  shows "round_f32 x = real_of_int (round_half_even (x * 2 ^ 23 / 2 ^ k)) * 2 ^ k / 2 ^ 23"
  by (simp add: round_f32_def f32_quantum_nat [OF assms])

lemma f32_quantum_small:
  assumes "\<bar>x\<bar> < 2 ^ 24"
  shows "\<exists>n::nat. f32_quantum x = 1 / 2 ^ n"
proof -
  have le: "f32_exponent x \<le> 23"
  proof (cases "x = 0")
    case True
    then show ?thesis by (simp add: f32_exponent_def log_def)
  next
    case False
    then have pos: "0 < \<bar>x\<bar>" by simp
    have "\<bar>x\<bar> < 2 powr 24" using assms by simp
    then have "log 2 \<bar>x\<bar> < 24"
      using pos by (intro iffD2 [OF log_less_iff]) simp_all
    then have "\<lfloor>log 2 \<bar>x\<bar>\<rfloor> < 24" by linarith
    then show ?thesis by (simp add: f32_exponent_def)
  qed
  define n where "n = nat (23 - f32_exponent x)"
  have n: "f32_exponent x - 23 = - int n"
    using le by (simp add: n_def)
  have "f32_quantum x = 2 powr (- real n)"
    by (simp add: f32_quantum_def n)
  also have "\<dots> = 1 / 2 ^ n"
    by (simp add: powr_minus powr_realpow inverse_eq_divide)
  finally show ?thesis by blast
qed

lemma round_f32_ge_floor:
  assumes "\<bar>x\<bar> < 2 ^ 24"
  shows "real_of_int \<lfloor>x\<rfloor> \<le> round_f32 x"
proof -
  from f32_quantum_small [OF assms] obtain n :: nat where q: "f32_quantum x = 1 / 2 ^ n"
    by blast
  have "real_of_int (\<lfloor>x\<rfloor> * 2 ^ n) \<le> x * 2 ^ n"
    by simp
  then have "\<lfloor>x\<rfloor> * 2 ^ n \<le> \<lfloor>x * 2 ^ n\<rfloor>"
    by (simp only: le_floor_iff)
  also have "\<dots> \<le> round_half_even (x * 2 ^ n)"
    by (rule round_half_even_ge)
  finally have "real_of_int (\<lfloor>x\<rfloor> * 2 ^ n) \<le> real_of_int (round_half_even (x * 2 ^ n))"
    by (simp only: of_int_le_iff)
  then have "real_of_int \<lfloor>x\<rfloor> * 2 ^ n \<le> real_of_int (round_half_even (x * 2 ^ n))"
    by simp
  then show ?thesis
    by (simp add: round_f32_def q field_simps)
qed

lemma round_f32_exact:
  assumes "x / f32_quantum x \<in> \<int>"
  shows "round_f32 x = x"
proof -
  from assms obtain m where m: "x / f32_quantum x = real_of_int m"
    by (auto elim: Ints_cases)
  have "round_f32 x = real_of_int m * f32_quantum x"
    unfolding round_f32_def m by simp
  also have "\<dots> = x"
    using m f32_quantum_pos [of x] by (simp add: field_simps)
  finally show ?thesis .
qed

lemma round_f32_of_int:
  assumes "\<bar>n\<bar> \<le> 2 ^ 24"
  shows "round_f32 (real_of_int n) = real_of_int n"
proof (cases "\<bar>n\<bar> = 2 ^ 24")
  case True
  then have n: "n = 2 ^ 24 \<or> n = - (2 ^ 24)" by linarith
  then have "\<bar>real_of_int n\<bar> = 2 ^ 24"
    by auto
  then have q: "f32_quantum (real_of_int n) = 2 ^ 24 / 2 ^ 23"
    by (intro f32_quantum_nat) simp_all
  have "real_of_int n / 2 \<in> \<int>"
    using n by auto
  then show ?thesis
    by (intro round_f32_exact) (simp add: q)
next
  case False
  then have "\<bar>n\<bar> < 2 ^ 24" using assms by linarith
  then have "real_of_int \<bar>n\<bar> < real_of_int (2 ^ 24)"
    by (simp only: of_int_less_iff)
  then have "\<bar>real_of_int n\<bar> < 2 ^ 24"
    by simp
  from f32_quantum_small [OF this] obtain k :: nat
    where q: "f32_quantum (real_of_int n) = 1 / 2 ^ k" by blast
  have "real_of_int n * 2 ^ k \<in> \<int>"
    by simp
  then show ?thesis
    by (intro round_f32_exact) (simp add: q)
qed

lemma float_to_int32_round_f32_ge:
  assumes "\<bar>x\<bar> < 2 ^ 24"
  shows "\<lfloor>x\<rfloor> \<le> float_to_int32 (round_f32 x)"
proof -
  have "real_of_int \<lfloor>x\<rfloor> \<le> round_f32 x" by (rule round_f32_ge_floor [OF assms])
  then have 1: "\<lfloor>x\<rfloor> \<le> \<lfloor>round_f32 x\<rfloor>" by (simp only: le_floor_iff)
  have 2: "\<lfloor>round_f32 x\<rfloor> \<le> \<lceil>round_f32 x\<rceil>" by (rule floor_le_ceiling)
  have 3: "\<lfloor>x\<rfloor> \<le> \<lceil>round_f32 x\<rceil>" using 1 2 by (rule order_trans)
  show ?thesis by (simp add: float_to_int32_def 1 3)
qed

lemma int32_to_float_exact: "\<bar>n\<bar> \<le> 2 ^ 24 \<Longrightarrow> int32_to_float n = real_of_int n"
  by (simp add: int32_to_float_def round_f32_of_int)

text \<open>
  Three sums checked against binary32 arithmetic: 0.99999994 + 100 is 101, the tie
  1000.99993896484375 + 100 goes to 1101, and the tie 16777213 + 100 goes to 16777312.
\<close>

lemma float_add_examples:
  "float_add (16777215 / 16777216) (int32_to_float 100) = 101"
  "float_add (1001 - 1 / 16384) (int32_to_float 100) = 1101"
  "float_add 16777213 (int32_to_float 100) = 16777312"
  by (simp_all add: float_add_def int32_to_float_exact round_f32_nat [where k = 6]
      round_f32_nat [where k = 10] round_f32_nat [where k = 24] round_half_even_def)

subsection \<open>Takeoff altitude\<close>

lemma float_to_int32_of_int [simp]: "float_to_int32 (real_of_int n) = n"
  by (simp add: float_to_int32_def)

lemma out_auto_yaw_set_mode [simp]: "out (auto_yaw_set_mode m s) = out s"
  by (simp add: auto_yaw_set_mode_def)

lemma out_set_submode:
  "out (set_submode m s)
     = out s @ (if m \<noteq> auto_mode s \<and> auto_mode s = NAV_ATTITUDE_TIME
                then [Copter Failsafe_ekf_recheck] else [])"
  by (simp add: set_submode_def Let_def)

lemma auto_mode_auto_yaw_set_mode [simp]: "auto_mode (auto_yaw_set_mode m s) = auto_mode s"
  by (simp add: auto_yaw_set_mode_def)

text \<open>The minimum of the sanity check, for a sum below \<open>2 ^ 24\<close> cm in magnitude.\<close>

lemma alt_target_min_gt:
  assumes "\<bar>cur + real_of_int k\<bar> < 2 ^ 24" "\<bar>k\<bar> \<le> 2 ^ 24"
  shows "cur + real_of_int k - 1
           < real_of_int (float_to_int32 (float_add cur (int32_to_float k)))"
proof -
  have "\<lfloor>cur + real_of_int k\<rfloor> \<le> float_to_int32 (float_add cur (int32_to_float k))"
    using float_to_int32_round_f32_ge [OF assms(1)]
    by (simp add: float_add_def int32_to_float_exact [OF assms(2)])
  then have "real_of_int \<lfloor>cur + real_of_int k\<rfloor>
               \<le> real_of_int (float_to_int32 (float_add cur (int32_to_float k)))"
    by (simp only: of_int_le_iff)
  then show ?thesis by linarith
qed

lemma alt_target_min_whole:
  assumes "\<bar>n + k\<bar> \<le> 2 ^ 24" "\<bar>k\<bar> \<le> 2 ^ 24"
  shows "float_to_int32 (float_add (real_of_int n) (int32_to_float k)) = n + k"
proof -
  have "float_add (real_of_int n) (int32_to_float k) = round_f32 (real_of_int (n + k))"
    by (simp add: float_add_def int32_to_float_exact [OF assms(2)])
  also have "\<dots> = real_of_int (n + k)"
    by (rule round_f32_of_int [OF assms(1)])
  finally show ?thesis by (simp only: float_to_int32_of_int)
qed

text \<open>
  C8, as stated, fails: the minimum is held in an \<^verbatim>\<open>int32_t\<close>, so the fraction of
  the sum is dropped. At the current altitude 1000.5 cm, landed, with a computed target
  of 900 cm, the \<^verbatim>\<open>float\<close> sum is 1100.5 and the clamped target is 1100 cm, which
  is less than the current altitude plus 100 cm.
\<close>

theorem takeoff_target_below_current_plus_100:
  "land_complete (flight_env\<lparr>land_complete := True, get_pos_estimate_NEU_cm_z := 1000.5\<rparr>)
   \<and> takeoff_alt (flight_env\<lparr>land_complete := True, get_pos_estimate_NEU_cm_z := 1000.5\<rparr>)
        (sample_default_loc\<lparr>alt := 900, alt_frame := ABOVE_ORIGIN\<rparr>)
       = (900, False, 1000.5, False)
   \<and> takeoff_alt_target_cm
        (flight_env\<lparr>land_complete := True, get_pos_estimate_NEU_cm_z := 1000.5\<rparr>)
        (sample_default_loc\<lparr>alt := 900, alt_frame := ABOVE_ORIGIN\<rparr>) = 1100
   \<and> real_of_int (takeoff_alt_target_cm
        (flight_env\<lparr>land_complete := True, get_pos_estimate_NEU_cm_z := 1000.5\<rparr>)
        (sample_default_loc\<lparr>alt := 900, alt_frame := ABOVE_ORIGIN\<rparr>))
       < get_pos_estimate_NEU_cm_z
           (flight_env\<lparr>land_complete := True, get_pos_estimate_NEU_cm_z := 1000.5\<rparr>) + 100"
  by (simp add: takeoff_alt_target_cm_def takeoff_alt_def flight_env_def sample_default_loc_def
      get_alt_frame_def same_frame_get_alt_cm_def float_to_int32_def float_add_def
      int32_to_float_exact round_f32_nat [where k = 10] round_half_even_def)

text \<open>
  C8, amended. The target before the sanity check is the command's altitude above
  terrain when that frame is requested and the terrain offset is known (the current
  altitude is then taken above terrain too), otherwise the command's altitude converted
  to above-origin, or, when that conversion fails, the current altitude plus the
  command's altitude. The target handed to the takeoff controller is the larger of that
  and the minimum, which is the \<^verbatim>\<open>float\<close> sum of the current altitude and 100 cm
  when land-complete (0 cm otherwise) with its fraction dropped. As long as the exact sum
  is below \<open>2 ^ 24\<close> cm in magnitude, the target is above the current altitude plus
  100 cm (plus 0) minus 1 cm; it is at least the current altitude plus 100 cm (plus 0)
  when the current altitude is a whole number of centimetres and the sum is at most
  \<open>2 ^ 24\<close> cm in magnitude. With the current altitude 1000 cm and a computed target of
  900 cm while landed, the target is 1100 cm.
\<close>

theorem takeoff_start_alt_target:
  "(current_loc_initialised env \<longrightarrow>
      Mode (Auto_takeoff_start (takeoff_alt_target_cm env dest_loc)
              (fst (snd (takeoff_alt env dest_loc))))
        \<in> set (emitted s (takeoff_start env dest_loc s)))
   \<and> takeoff_alt_target_cm env dest_loc
       = max (fst (takeoff_alt env dest_loc))
             (float_to_int32
                (float_add (fst (snd (snd (takeoff_alt env dest_loc))))
                   (int32_to_float (if land_complete env then 100 else 0))))
   \<and> (\<bar>fst (snd (snd (takeoff_alt env dest_loc))) + (if land_complete env then 100 else 0)\<bar>
        < 2 ^ 24 \<longrightarrow>
      fst (snd (snd (takeoff_alt env dest_loc))) + (if land_complete env then 100 else 0) - 1
        < real_of_int (takeoff_alt_target_cm env dest_loc))
   \<and> (fst (snd (snd (takeoff_alt env dest_loc))) \<in> \<int>
      \<and> \<bar>fst (snd (snd (takeoff_alt env dest_loc))) + (if land_complete env then 100 else 0)\<bar>
          \<le> 2 ^ 24 \<longrightarrow>
      fst (snd (snd (takeoff_alt env dest_loc))) + (if land_complete env then 100 else 0)
        \<le> real_of_int (takeoff_alt_target_cm env dest_loc))
   \<and> (\<forall>terrain_offset.
        get_alt_frame dest_loc = ABOVE_TERRAIN
        \<and> get_terrain_offset_cm env = Some terrain_offset \<longrightarrow>
        takeoff_alt env dest_loc
          = (alt dest_loc, True,
             float_sub (get_pos_estimate_NEU_cm_z env) terrain_offset, False))
   \<and> (\<not> (get_alt_frame dest_loc = ABOVE_TERRAIN \<and> get_terrain_offset_cm env \<noteq> None) \<longrightarrow>
        (\<forall>a. get_alt_cm env
                (dest_loc\<lparr>lat := lat (current_loc env), lng := lng (current_loc env)\<rparr>)
                ABOVE_ORIGIN = Some a \<longrightarrow>
             takeoff_alt env dest_loc = (a, False, get_pos_estimate_NEU_cm_z env, False))
      \<and> (get_alt_cm env
             (dest_loc\<lparr>lat := lat (current_loc env), lng := lng (current_loc env)\<rparr>)
             ABOVE_ORIGIN = None \<longrightarrow>
           takeoff_alt env dest_loc
             = (float_to_int32
                  (float_add (get_pos_estimate_NEU_cm_z env) (int32_to_float (alt dest_loc))),
                False, get_pos_estimate_NEU_cm_z env, True)))
   \<and> (land_complete env \<and> fst (snd (snd (takeoff_alt env dest_loc))) = 1000
      \<and> fst (takeoff_alt env dest_loc) = 900 \<longrightarrow>
      takeoff_alt_target_cm env dest_loc = 1100)"
proof -
  obtain a terr cur missing where ta: "takeoff_alt env dest_loc = (a, terr, cur, missing)"
    by (cases "takeoff_alt env dest_loc") auto
  define k :: int where "k = (if land_complete env then 100 else 0)"
  have k: "\<bar>k\<bar> \<le> 2 ^ 24" "real_of_int k = (if land_complete env then 100 else 0)"
    by (simp_all add: k_def)
  have tgt: "takeoff_alt_target_cm env dest_loc
               = max a (float_to_int32 (float_add cur (int32_to_float k)))"
    by (simp add: takeoff_alt_target_cm_def ta Let_def k_def)
  have call: "Mode (Auto_takeoff_start (takeoff_alt_target_cm env dest_loc) terr)
                \<in> set (emitted s (takeoff_start env dest_loc s))"
    if "current_loc_initialised env"
    using that by (simp add: takeoff_start_def ta Let_def emitted_def out_set_submode)
  have lower: "cur + real_of_int k - 1 < real_of_int (takeoff_alt_target_cm env dest_loc)"
    if "\<bar>cur + real_of_int k\<bar> < 2 ^ 24"
    using alt_target_min_gt [OF that k(1)] unfolding tgt by linarith
  have whole: "cur + real_of_int k \<le> real_of_int (takeoff_alt_target_cm env dest_loc)"
    if "cur \<in> \<int>" "\<bar>cur + real_of_int k\<bar> \<le> 2 ^ 24"
  proof -
    from that(1) obtain n where n: "cur = real_of_int n"
      by (auto elim: Ints_cases)
    have "real_of_int \<bar>n + k\<bar> \<le> real_of_int (2 ^ 24)"
      using that(2) by (simp add: n)
    then have "\<bar>n + k\<bar> \<le> 2 ^ 24"
      by (simp only: of_int_le_iff)
    from alt_target_min_whole [OF this k(1)] show ?thesis
      unfolding tgt by (simp add: n)
  qed
  have terrain: "takeoff_alt env dest_loc
          = (alt dest_loc, True,
             float_sub (get_pos_estimate_NEU_cm_z env) terrain_offset, False)"
    if "get_alt_frame dest_loc = ABOVE_TERRAIN"
      and "get_terrain_offset_cm env = Some terrain_offset" for terrain_offset
    using that by (simp add: takeoff_alt_def Let_def)
  have origin: "takeoff_alt env dest_loc
          = (case get_alt_cm env
                    (dest_loc\<lparr>lat := lat (current_loc env), lng := lng (current_loc env)\<rparr>)
                    ABOVE_ORIGIN of
               Some a \<Rightarrow> (a, False, get_pos_estimate_NEU_cm_z env, False)
             | None \<Rightarrow>
                 (float_to_int32
                    (float_add (get_pos_estimate_NEU_cm_z env) (int32_to_float (alt dest_loc))),
                  False, get_pos_estimate_NEU_cm_z env, True))"
    if "\<not> (get_alt_frame dest_loc = ABOVE_TERRAIN \<and> get_terrain_offset_cm env \<noteq> None)"
    using that by (auto simp: takeoff_alt_def Let_def split: option.splits)
  have example: "takeoff_alt_target_cm env dest_loc = 1100"
    if "land_complete env" "cur = 1000" "a = 900"
  proof -
    have "float_to_int32 (float_add (real_of_int 1000) (int32_to_float 100)) = 1000 + 100"
      by (rule alt_target_min_whole) simp_all
    then show ?thesis
      using that unfolding tgt by (simp add: k_def)
  qed
  have tgt': "takeoff_alt_target_cm env dest_loc
               = max a (float_to_int32
                          (float_add cur (int32_to_float (if land_complete env then 100 else 0))))"
    by (simp add: tgt k_def)
  have lower': "cur + (if land_complete env then 100 else 0) - 1
                  < real_of_int (takeoff_alt_target_cm env dest_loc)"
    if "\<bar>cur + (if land_complete env then 100 else 0)\<bar> < 2 ^ 24"
    using lower that by (simp only: k(2))
  have whole': "cur + (if land_complete env then 100 else 0)
                  \<le> real_of_int (takeoff_alt_target_cm env dest_loc)"
    if "cur \<in> \<int>" "\<bar>cur + (if land_complete env then 100 else 0)\<bar> \<le> 2 ^ 24"
    using whole that by (simp only: k(2))
  show ?thesis
    unfolding ta fst_conv snd_conv
    using call tgt' lower' whole' terrain [unfolded ta] origin [unfolded ta] example
    by (intro conjI impI allI) (auto split: option.splits)
qed

theorem takeoff_start_alt_target_witness:
  "current_loc_initialised (flight_env\<lparr>land_complete := True, get_pos_estimate_NEU_cm_z := 1000\<rparr>)
   \<and> land_complete (flight_env\<lparr>land_complete := True, get_pos_estimate_NEU_cm_z := 1000\<rparr>)
   \<and> takeoff_alt (flight_env\<lparr>land_complete := True, get_pos_estimate_NEU_cm_z := 1000\<rparr>)
        (sample_default_loc\<lparr>alt := 900, alt_frame := ABOVE_ORIGIN\<rparr>)
       = (900, False, 1000, False)
   \<and> takeoff_alt_target_cm
        (flight_env\<lparr>land_complete := True, get_pos_estimate_NEU_cm_z := 1000\<rparr>)
        (sample_default_loc\<lparr>alt := 900, alt_frame := ABOVE_ORIGIN\<rparr>) = 1100
   \<and> Mode (Auto_takeoff_start 1100 False)
        \<in> set (emitted start_state
                 (takeoff_start
                    (flight_env\<lparr>land_complete := True, get_pos_estimate_NEU_cm_z := 1000\<rparr>)
                    (sample_default_loc\<lparr>alt := 900, alt_frame := ABOVE_ORIGIN\<rparr>) start_state))"
  using takeoff_start_alt_target [of
      "flight_env\<lparr>land_complete := True, get_pos_estimate_NEU_cm_z := 1000\<rparr>"
      "sample_default_loc\<lparr>alt := 900, alt_frame := ABOVE_ORIGIN\<rparr>" start_state]
  by (simp add: takeoff_alt_def takeoff_start_def emitted_def
      out_set_submode flight_env_def sample_default_loc_def start_state_def get_alt_frame_def
      same_frame_get_alt_cm_def)

subsection \<open>Loiter to altitude when the altitude cannot be resolved\<close>

lemma loiter_to_alt_set_state [simp]: "loiter_to_alt (set_state st s) = loiter_to_alt s"
  by (simp add: set_state_def)
lemma loiter_to_alt_auto_yaw_set_mode [simp]: "loiter_to_alt (auto_yaw_set_mode m s) = loiter_to_alt s"
  by (simp add: auto_yaw_set_mode_def)
lemma loiter_to_alt_set_submode [simp]: "loiter_to_alt (set_submode m s) = loiter_to_alt s"
  by (simp add: set_submode_def Let_def)

lemma loiter_to_alt_payload_place_run [simp]:
  "loiter_to_alt (payload_place_run env s) = loiter_to_alt s"
proof -
  have a: "loiter_to_alt (place_landed env s) = loiter_to_alt s" for s
    by (cases "state (payload_place s)") (simp_all add: place_landed_def Let_def)
  have b: "loiter_to_alt (place_gripper env s) = loiter_to_alt s" for s
    by (cases "state (payload_place s)") (simp_all add: place_gripper_def Let_def)
  have c1: "loiter_to_alt (case_Ascent env s) = loiter_to_alt s" for s
    by (simp add: case_Ascent_def Let_def)
  have c2: "loiter_to_alt (case_Ascent_Start env s) = loiter_to_alt s" for s
    by (simp add: case_Ascent_Start_def c1)
  have c3: "loiter_to_alt (case_Delay env s) = loiter_to_alt s" for s
    by (simp add: case_Delay_def c2)
  have c4: "loiter_to_alt (case_Releasing env s) = loiter_to_alt s" for s
    by (simp add: case_Releasing_def c3)
  have c5: "loiter_to_alt (case_Release env s) = loiter_to_alt s" for s
    by (simp add: case_Release_def Let_def)
  have c6: "loiter_to_alt (case_Descent env s) = loiter_to_alt s" for s
    by (simp add: case_Descent_def Let_def set_place_start_time_ms_def)
  have c7: "loiter_to_alt (case_Descent_Start env s) = loiter_to_alt s" for s
    by (simp add: case_Descent_Start_def c6)
  have c8: "loiter_to_alt (case_FlyToLocation env s) = loiter_to_alt s" for s
    by (simp add: case_FlyToLocation_def start_descent_def Let_def)
  have c: "loiter_to_alt (place_switch env s) = loiter_to_alt s" for s
    by (cases "state (payload_place s)") (simp_all add: place_switch_def c1 c2 c3 c4 c5 c6 c7 c8)
  have d: "loiter_to_alt (place_output env s) = loiter_to_alt s" for s
    by (cases "state (payload_place s)") (simp_all add: place_output_def Let_def)
  show ?thesis
    by (simp add: payload_place_run_def Let_def a b c d)
qed

lemma flags_run_dispatch:
  "reached_destination_xy (loiter_to_alt s) \<and> reached_alt (loiter_to_alt s) \<Longrightarrow>
   reached_destination_xy (loiter_to_alt (run_dispatch env s))
   \<and> reached_alt (loiter_to_alt (run_dispatch env s))"
  by (cases "auto_mode s")
     (simp_all add: run_dispatch_def takeoff_run_def land_run_def rtl_run_def circle_run_def
       nav_guided_run_def loiter_run_def nav_attitude_time_run_def Let_def
       reached_alt_tick reached_destination_xy_tick)

lemma flags_run_ticks:
  "reached_destination_xy (loiter_to_alt s) \<and> reached_alt (loiter_to_alt s) \<Longrightarrow>
   verify_loiter_to_alt (run_ticks envs s)"
proof (induction envs arbitrary: s)
  case Nil
  then show ?case by (simp add: verify_loiter_to_alt_def)
next
  case (Cons env envs)
  then show ?case using flags_run_dispatch [of s env] by simp
qed

lemma auto_mode_set_submode [simp]: "auto_mode (set_submode m s) = m"
  by (simp add: set_submode_def Let_def)

lemma auto_mode_wp_start:
  "auto_mode (snd (wp_start env loc s))
     = (if set_wp_destination_loc env loc then WP else auto_mode s)"
  unfolding wp_start_def Let_def by simp

lemma auto_mode_do_loiter_unlimited:
  "auto_mode (do_loiter_unlimited env cmd s) = WP
   \<or> auto_mode (do_loiter_unlimited env cmd s) = auto_mode s"
  by (simp add: do_loiter_unlimited_def Let_def case_prod_beta auto_mode_wp_start)

lemma do_loiter_to_alt_failed:
  assumes "get_alt_cm env
             (if lat (location cmd) = 0 \<and> lng (location cmd) = 0
              then (location cmd)\<lparr>lat := lat (current_loc env), lng := lng (current_loc env)\<rparr>
              else location cmd) ABOVE_HOME = None"
  shows "do_loiter_to_alt env cmd s =
          emit [Gcs (Send_text MAV_SEVERITY_INFO ''bad do_loiter_to_alt'' [])]
            ((do_loiter_unlimited env cmd s)
               \<lparr>loiter_to_alt := (loiter_to_alt (do_loiter_unlimited env cmd s))
                     \<lparr>reached_destination_xy := True, reached_alt := True\<rparr>\<rparr>)"
  unfolding do_loiter_to_alt_def Let_def using assms by simp

text \<open>
  C9: when the command's altitude (at the vehicle's position if the command has no
  coordinates) cannot be converted to the above-home frame, \<^verbatim>\<open>do_loiter_to_alt\<close>
  sets both flags and returns with the submode that \<^verbatim>\<open>do_loiter_unlimited\<close> left,
  which is not LoiterToAlt unless the vehicle was in it already. From then on, whatever
  ticks run, \<^verbatim>\<open>verify_loiter_to_alt\<close> is true and \<^verbatim>\<open>verify_command\<close> reports a
  loiter-to-altitude command complete.
\<close>

theorem do_loiter_to_alt_self_completes:
  "get_alt_cm env
     (if lat (location cmd) = 0 \<and> lng (location cmd) = 0
      then (location cmd)\<lparr>lat := lat (current_loc env), lng := lng (current_loc env)\<rparr>
      else location cmd) ABOVE_HOME = None \<longrightarrow>
   reached_destination_xy (loiter_to_alt (do_loiter_to_alt env cmd s))
   \<and> reached_alt (loiter_to_alt (do_loiter_to_alt env cmd s))
   \<and> auto_mode (do_loiter_to_alt env cmd s) = auto_mode (do_loiter_unlimited env cmd s)
   \<and> (auto_mode s \<noteq> LOITER_TO_ALT \<longrightarrow> auto_mode (do_loiter_to_alt env cmd s) \<noteq> LOITER_TO_ALT)
   \<and> verify_loiter_to_alt (run_ticks envs (do_loiter_to_alt env cmd s))
   \<and> (flightmode_is_auto env' \<and> cmd_id cmd' = MAV_CMD_NAV_LOITER_TO_ALT \<longrightarrow>
        fst (verify_command env' cmd' (run_ticks envs (do_loiter_to_alt env cmd s))))"
proof
  assume failed: "get_alt_cm env
     (if lat (location cmd) = 0 \<and> lng (location cmd) = 0
      then (location cmd)\<lparr>lat := lat (current_loc env), lng := lng (current_loc env)\<rparr>
      else location cmd) ABOVE_HOME = None"
  let ?s' = "do_loiter_to_alt env cmd s"
  have flags: "reached_destination_xy (loiter_to_alt ?s') \<and> reached_alt (loiter_to_alt ?s')"
    by (simp add: do_loiter_to_alt_failed [OF failed])
  have mode: "auto_mode ?s' = auto_mode (do_loiter_unlimited env cmd s)"
    by (simp add: do_loiter_to_alt_failed [OF failed])
  have not_entered: "auto_mode ?s' \<noteq> LOITER_TO_ALT" if "auto_mode s \<noteq> LOITER_TO_ALT"
    using that auto_mode_do_loiter_unlimited [of env cmd s] unfolding mode by auto
  have polls: "verify_loiter_to_alt (run_ticks envs ?s')"
    by (rule flags_run_ticks [OF flags])
  have command: "fst (verify_command env' cmd' (run_ticks envs ?s'))"
    if "flightmode_is_auto env'" "cmd_id cmd' = MAV_CMD_NAV_LOITER_TO_ALT"
    using that polls by (simp add: verify_command_def verify_switch_def)
  show "reached_destination_xy (loiter_to_alt ?s')
   \<and> reached_alt (loiter_to_alt ?s')
   \<and> auto_mode ?s' = auto_mode (do_loiter_unlimited env cmd s)
   \<and> (auto_mode s \<noteq> LOITER_TO_ALT \<longrightarrow> auto_mode ?s' \<noteq> LOITER_TO_ALT)
   \<and> verify_loiter_to_alt (run_ticks envs ?s')
   \<and> (flightmode_is_auto env' \<and> cmd_id cmd' = MAV_CMD_NAV_LOITER_TO_ALT \<longrightarrow>
        fst (verify_command env' cmd' (run_ticks envs ?s')))"
    using flags mode not_entered polls command by blast
qed

theorem do_loiter_to_alt_self_completes_witness:
  "get_alt_cm flight_env
     ((location (sample_cmd\<lparr>cmd_id := MAV_CMD_NAV_LOITER_TO_ALT,
                             location := (location sample_cmd)\<lparr>alt_frame := ABOVE_TERRAIN\<rparr>\<rparr>))
        \<lparr>lat := lat (current_loc flight_env), lng := lng (current_loc flight_env)\<rparr>)
     ABOVE_HOME = None
   \<and> verify_loiter_to_alt
        (do_loiter_to_alt flight_env
           (sample_cmd\<lparr>cmd_id := MAV_CMD_NAV_LOITER_TO_ALT,
                        location := (location sample_cmd)\<lparr>alt_frame := ABOVE_TERRAIN\<rparr>\<rparr>)
           start_state)
   \<and> auto_mode
        (do_loiter_to_alt flight_env
           (sample_cmd\<lparr>cmd_id := MAV_CMD_NAV_LOITER_TO_ALT,
                        location := (location sample_cmd)\<lparr>alt_frame := ABOVE_TERRAIN\<rparr>\<rparr>)
           start_state) = WP"
  using do_loiter_to_alt_self_completes [of flight_env
      "sample_cmd\<lparr>cmd_id := MAV_CMD_NAV_LOITER_TO_ALT,
                   location := (location sample_cmd)\<lparr>alt_frame := ABOVE_TERRAIN\<rparr>\<rparr>"
      start_state "[]" flight_env sample_cmd]
  by (simp add: do_loiter_to_alt_def do_loiter_unlimited_def wp_start_def set_submode_def
      subtract_pos_offsets_def loc_simps auto_yaw_set_mode_to_default_def emit_def Let_def
      verify_loiter_to_alt_def flight_env_def sample_cmd_def start_state_def)

subsection \<open>verify\_command\<close>

text \<open>
  C5: whatever the command and the state of the sub-controllers, \<^verbatim>\<open>verify_command\<close>
  returns false, and changes nothing, when the active flight mode is not the Auto mode.
\<close>

theorem verify_command_not_auto:
  "\<not> flightmode_is_auto env \<longrightarrow> verify_command env cmd s = (False, s)"
  by (simp add: verify_command_def)

theorem verify_command_not_auto_witness:
  "\<not> flightmode_is_auto (flight_env\<lparr>flightmode_is_auto := False\<rparr>)
   \<and> verify_command (flight_env\<lparr>flightmode_is_auto := False\<rparr>)
        (sample_cmd\<lparr>cmd_id := MAV_CMD_DO_SET_HOME\<rparr>) start_state = (False, start_state)
   \<and> fst (verify_command flight_env (sample_cmd\<lparr>cmd_id := MAV_CMD_DO_SET_HOME\<rparr>) start_state)"
  using verify_command_not_auto [of "flight_env\<lparr>flightmode_is_auto := False\<rparr>"
      "sample_cmd\<lparr>cmd_id := MAV_CMD_DO_SET_HOME\<rparr>" start_state]
  by (simp add: verify_command_def verify_switch_def flight_env_def sample_cmd_def)

lemma quiet_refl [simp]: "quiet s s"
  by (simp add: quiet_def)

lemma quiet_emit [simp]:
  "filter is_mission_item_reached cs = [] \<Longrightarrow> quiet s s' \<Longrightarrow> quiet s (emit cs s')"
  by (auto simp: quiet_def)

lemma quiet_updates [simp]:
  "quiet s (s'\<lparr>loiter_time := t\<rparr>) = quiet s s'"
  "quiet s (s'\<lparr>condition_value := v\<rparr>) = quiet s s'"
  "quiet s (s'\<lparr>nav_delay_time_max_ms := t\<rparr>) = quiet s s'"
  "quiet s (s'\<lparr>land_state := l\<rparr>) = quiet s s'"
  "quiet s (s'\<lparr>circle_last_num_complete := n\<rparr>) = quiet s s'"
  "quiet s (s'\<lparr>land_repo_active := b\<rparr>) = quiet s s'"
  "quiet s (s'\<lparr>prec_land_active := b\<rparr>) = quiet s s'"
  "quiet s (s'\<lparr>auto_mode := m\<rparr>) = quiet s s'"
  "quiet s (s'\<lparr>auto_yaw_mode := y\<rparr>) = quiet s s'"
  by (simp_all add: quiet_def)

lemma quiet_set_submode [simp]: "quiet s s' \<Longrightarrow> quiet s (set_submode m s')"
  by (simp add: set_submode_def Let_def)

lemma quiet_land_start [simp]: "quiet s s' \<Longrightarrow> quiet s (land_start env s')"
  by (simp add: land_start_def Let_def auto_yaw_set_mode_def)

lemma quiet_circle_start [simp]: "quiet s s' \<Longrightarrow> quiet s (circle_start s')"
  by (simp add: circle_start_def Let_def auto_yaw_set_mode_def)

lemma quiet_verify_takeoff: "quiet s (snd (verify_takeoff env s))"
  by (simp add: verify_takeoff_def)

lemma quiet_verify_land: "quiet s (snd (verify_land env s))"
  by (cases "land_state s") (simp_all add: verify_land_def Let_def)

lemma quiet_verify_loiter_time: "quiet s (snd (verify_loiter_time env cmd s))"
  by (simp add: verify_loiter_time_def Let_def)

lemma quiet_verify_spline_wp: "quiet s (snd (verify_spline_wp env cmd s))"
  by (simp add: verify_spline_wp_def Let_def)

lemma quiet_verify_nav_wp: "quiet s (snd (verify_nav_wp env cmd s))"
  by (simp add: verify_nav_wp_def Let_def)

lemma quiet_verify_circle: "quiet s (snd (verify_circle env cmd s))"
  by (simp add: verify_circle_def Let_def)

lemma quiet_verify_wait_delay: "quiet s (snd (verify_wait_delay env s))"
  by (simp add: verify_wait_delay_def)

lemma quiet_verify_within_distance: "quiet s (snd (verify_within_distance env s))"
  by (simp add: verify_within_distance_def)

lemma quiet_verify_yaw: "quiet s (snd (verify_yaw env s))"
  by (simp add: verify_yaw_def auto_yaw_set_mode_def)

lemma quiet_verify_nav_delay: "quiet s (snd (verify_nav_delay env cmd s))"
  by (simp add: verify_nav_delay_def)

lemma verify_switch_quiet:
  assumes "cmd_id cmd \<noteq> MAV_CMD_NAV_LOITER_TO_ALT"
  shows "\<exists>r. verify_switch env cmd s = Inr r \<and> quiet s (snd r)"
  using assms
  by (cases "cmd_id cmd")
     (simp_all add: verify_switch_def quiet_verify_takeoff quiet_verify_land
        quiet_verify_loiter_time quiet_verify_spline_wp quiet_verify_nav_wp quiet_verify_circle
        quiet_verify_wait_delay quiet_verify_within_distance quiet_verify_yaw
        quiet_verify_nav_delay)

lemma emitted_quiet_emit:
  "quiet s s' \<Longrightarrow>
   filter is_mission_item_reached (emitted s (emit cs s')) = filter is_mission_item_reached cs"
  by (auto simp: quiet_def emitted_def)

lemma emitted_quiet:
  "quiet s s' \<Longrightarrow> filter is_mission_item_reached (emitted s s') = []"
  by (auto simp: quiet_def emitted_def)

text \<open>
  C10: for a command other than NAV\_LOITER\_TO\_ALT, the mission-item-reached messages
  that \<^verbatim>\<open>verify_command\<close> sends are exactly one, for the command's index, when it
  returns true, and none when it returns false. For NAV\_LOITER\_TO\_ALT it returns the
  result of \<^verbatim>\<open>verify_loiter_to_alt\<close> (false outside the Auto mode), makes no call at
  all and leaves the state as it is, also when the command is complete.
\<close>

theorem verify_command_item_reached:
  "(cmd_id cmd \<noteq> MAV_CMD_NAV_LOITER_TO_ALT \<longrightarrow>
      filter is_mission_item_reached (emitted s (snd (verify_command env cmd s)))
        = (if fst (verify_command env cmd s)
           then [Gcs (Send_mission_item_reached_message (index cmd))] else []))
   \<and> (cmd_id cmd = MAV_CMD_NAV_LOITER_TO_ALT \<longrightarrow>
      snd (verify_command env cmd s) = s
      \<and> emitted s (snd (verify_command env cmd s)) = []
      \<and> fst (verify_command env cmd s) = (flightmode_is_auto env \<and> verify_loiter_to_alt s))"
proof (intro conjI impI)
  assume other: "cmd_id cmd \<noteq> MAV_CMD_NAV_LOITER_TO_ALT"
  show "filter is_mission_item_reached (emitted s (snd (verify_command env cmd s)))
        = (if fst (verify_command env cmd s)
           then [Gcs (Send_mission_item_reached_message (index cmd))] else [])"
  proof (cases "flightmode_is_auto env")
    case False
    then show ?thesis by (simp add: verify_command_def emitted_def)
  next
    case True
    from verify_switch_quiet [OF other, of env s]
    obtain r where r: "verify_switch env cmd s = Inr r" and q: "quiet s (snd r)"
      by blast
    show ?thesis
      using True r q
      by (cases r) (simp add: verify_command_def emitted_quiet_emit emitted_quiet)
  qed
next
  assume lta: "cmd_id cmd = MAV_CMD_NAV_LOITER_TO_ALT"
  then show "snd (verify_command env cmd s) = s"
    by (simp add: verify_command_def verify_switch_def)
  from lta show "emitted s (snd (verify_command env cmd s)) = []"
    by (simp add: verify_command_def verify_switch_def emitted_def)
  from lta show "fst (verify_command env cmd s)
                   = (flightmode_is_auto env \<and> verify_loiter_to_alt s)"
    by (simp add: verify_command_def verify_switch_def)
qed

theorem verify_command_item_reached_witness:
  "verify_command flight_env (sample_cmd\<lparr>cmd_id := MAV_CMD_DO_SET_HOME, index := 7\<rparr>) start_state
     = (True, start_state\<lparr>out := [Gcs (Send_mission_item_reached_message 7)]\<rparr>)
   \<and> verify_command flight_env (sample_cmd\<lparr>cmd_id := MAV_CMD_NAV_LOITER_UNLIM, index := 7\<rparr>)
        start_state = (False, start_state)
   \<and> verify_command flight_env (sample_cmd\<lparr>cmd_id := MAV_CMD_NAV_LOITER_TO_ALT, index := 7\<rparr>)
        (start_state\<lparr>loiter_to_alt := (loiter_to_alt start_state)
                        \<lparr>reached_destination_xy := True, reached_alt := True\<rparr>\<rparr>)
      = (True, start_state\<lparr>loiter_to_alt := (loiter_to_alt start_state)
                        \<lparr>reached_destination_xy := True, reached_alt := True\<rparr>\<rparr>)"
  using verify_command_item_reached [of
      "sample_cmd\<lparr>cmd_id := MAV_CMD_DO_SET_HOME, index := 7\<rparr>" start_state flight_env]
  by (simp add: verify_command_def verify_switch_def verify_loiter_unlimited_def
      verify_loiter_to_alt_def flight_env_def sample_cmd_def start_state_def emit_def)

subsection \<open>Circles\<close>

text \<open>
  C6: a circle command of 2 turns is complete once 2 revolutions are flown, and one
  "starting circle k" text is sent per revolution, k = 1, 2. The code sends a third
  text on the poll that completes the command. After \<^verbatim>\<open>do_circle\<close> (the vehicle is on
  the edge of the circle), polls at half a revolution, one and a half and two and a half
  revolutions return false, false and true, and the texts sent are "starting circle 1/2",
  "starting circle 2/2" and "starting circle 3/2".
\<close>

theorem verify_circle_two_turns_texts:
  "fst (verify_circle_polls
          [flight_env\<lparr>get_angle_total_rad := pi\<rparr>,
           flight_env\<lparr>get_angle_total_rad := 3 * pi\<rparr>,
           flight_env\<lparr>get_angle_total_rad := 5 * pi\<rparr>]
          (sample_cmd\<lparr>cmd_id := MAV_CMD_NAV_LOITER_TURNS, turns := 2\<rparr>)
          (do_circle flight_env (sample_cmd\<lparr>cmd_id := MAV_CMD_NAV_LOITER_TURNS, turns := 2\<rparr>)
             start_state))
     = [False, False, True]
   \<and> emitted
       (do_circle flight_env (sample_cmd\<lparr>cmd_id := MAV_CMD_NAV_LOITER_TURNS, turns := 2\<rparr>)
          start_state)
       (snd (verify_circle_polls
          [flight_env\<lparr>get_angle_total_rad := pi\<rparr>,
           flight_env\<lparr>get_angle_total_rad := 3 * pi\<rparr>,
           flight_env\<lparr>get_angle_total_rad := 5 * pi\<rparr>]
          (sample_cmd\<lparr>cmd_id := MAV_CMD_NAV_LOITER_TURNS, turns := 2\<rparr>)
          (do_circle flight_env (sample_cmd\<lparr>cmd_id := MAV_CMD_NAV_LOITER_TURNS, turns := 2\<rparr>)
             start_state)))
     = [Gcs (Send_text MAV_SEVERITY_INFO ''Mission: starting circle %u/%u''
               [Arg_unsigned 1, Arg_unsigned 2]),
        Gcs (Send_text MAV_SEVERITY_INFO ''Mission: starting circle %u/%u''
               [Arg_unsigned 2, Arg_unsigned 2]),
        Gcs (Send_text MAV_SEVERITY_INFO ''Mission: starting circle %u/%u''
               [Arg_unsigned 3, Arg_unsigned 2])]"
  by (simp add: do_circle_def circle_movetoedge_start_def circle_start_def set_submode_def
      verify_circle_def flight_env_def start_state_def sample_cmd_def emit_def Let_def
      subtract_pos_offsets_def loc_simps auto_yaw_set_mode_def float_to_int32_def emitted_def
      ceiling_def)

end
